theory Spec2Isabelle
  imports Complex_Main
begin

section \<open>Errors\<close>

text \<open>
  Every exception the forward pass can raise is a value. \<open>IndexError\<close> is an index
  out of range (an embedding lookup, a dimension that a tensor does not have),
  \<open>ShapeError\<close> is the tensor library's complaint about sizes that do not fit,
  \<open>TypeError\<close> is a \<open>None\<close> given where a tensor is needed, and \<open>NameError\<close> is
  a read of a name that is not bound.
\<close>

datatype error = IndexError | ShapeError | TypeError | NameError

definition rbind :: "error + 'a \<Rightarrow> ('a \<Rightarrow> error + 'b) \<Rightarrow> error + 'b" where
  "rbind m f = (case m of Inl e \<Rightarrow> Inl e | Inr x \<Rightarrow> f x)"

section \<open>Tensors\<close>

text \<open>
  A tensor is its shape and its elements, read at a multi-index. Elements are reals
  (the arithmetic of the model is exact) or integers (token ids, segment ids, masks).
  Only the elements at the indices of the shape matter.
\<close>

record 'a tensor =
  shape :: "nat list"
  elt :: "nat list \<Rightarrow> 'a"

fun indices :: "nat list \<Rightarrow> nat list list" where
  "indices [] = [[]]"
| "indices (d # ds) = concat (map (\<lambda>i. map ((#) i) (indices ds)) [0..<d])"

text \<open>Broadcasting: shapes are aligned at the right; two sizes fit when they are equal
  or one of them is 1.\<close>

fun broadcast_rev :: "nat list \<Rightarrow> nat list \<Rightarrow> nat list option" where
  "broadcast_rev [] ys = Some ys"
| "broadcast_rev (x # xs) [] = Some (x # xs)"
| "broadcast_rev (x # xs) (y # ys) =
     (if x = y \<or> y = 1 then map_option ((#) x) (broadcast_rev xs ys)
      else if x = 1 then map_option ((#) y) (broadcast_rev xs ys)
      else None)"

definition broadcast_shapes :: "nat list \<Rightarrow> nat list \<Rightarrow> nat list option" where
  "broadcast_shapes a b = map_option rev (broadcast_rev (rev a) (rev b))"

text \<open>The index at which an operand of shape \<open>sh\<close> is read for the index \<open>i\<close> of
  the broadcast result.\<close>

definition bidx :: "nat list \<Rightarrow> nat list \<Rightarrow> nat list" where
  "bidx sh i = map2 (\<lambda>d k. if d = 1 then 0 else k) sh (drop (length i - length sh) i)"

definition binop :: "(real \<Rightarrow> real \<Rightarrow> real) \<Rightarrow> real tensor \<Rightarrow> real tensor \<Rightarrow> error + real tensor" where
  "binop f a b =
     (case broadcast_shapes (shape a) (shape b) of
        None \<Rightarrow> Inl ShapeError
      | Some sh \<Rightarrow> Inr \<lparr>shape = sh, elt = (\<lambda>i. f (elt a (bidx (shape a) i)) (elt b (bidx (shape b) i)))\<rparr>)"

definition tensor_add :: "real tensor \<Rightarrow> real tensor \<Rightarrow> error + real tensor" where
  "tensor_add a b = binop (+) a b"

text \<open>\<open>a -= b\<close>: the result replaces \<open>a\<close>, so the broadcast shape must be the shape
  of \<open>a\<close>.\<close>

definition isub :: "real tensor \<Rightarrow> real tensor \<Rightarrow> error + real tensor" where
  "isub a b =
     (if broadcast_shapes (shape a) (shape b) = Some (shape a) then binop (-) a b
      else Inl ShapeError)"

definition pointwise :: "('a \<Rightarrow> 'b) \<Rightarrow> 'a tensor \<Rightarrow> 'b tensor" where
  "pointwise f t = \<lparr>shape = shape t, elt = (\<lambda>i. f (elt t i))\<rparr>"

text \<open>\<open>t.float()\<close>\<close>

definition float :: "int tensor \<Rightarrow> real tensor" where
  "float t = pointwise real_of_int t"

text \<open>\<open>t.size(d)\<close> and \<open>t.transpose(d0, d1)\<close>: a dimension is counted from the left when it
  is not negative and from the right when it is.\<close>

definition wrap_dim :: "nat \<Rightarrow> int \<Rightarrow> error + nat" where
  "wrap_dim r d = (if - int r \<le> d \<and> d < int r then Inr (nat (if d < 0 then d + int r else d))
              else Inl IndexError)"

definition tensor_size :: "'a tensor \<Rightarrow> int \<Rightarrow> error + nat" where
  "tensor_size t d = rbind (wrap_dim (length (shape t)) d) (\<lambda>k. Inr (shape t ! k))"

definition swap_dims :: "nat \<Rightarrow> nat \<Rightarrow> 'b list \<Rightarrow> 'b list" where
  "swap_dims a b xs = (if a < length xs \<and> b < length xs then xs[a := xs ! b, b := xs ! a] else xs)"

definition tensor_transpose :: "int \<Rightarrow> int \<Rightarrow> 'a tensor \<Rightarrow> error + 'a tensor" where
  "tensor_transpose d0 d1 t =
     rbind (wrap_dim (length (shape t)) d0) (\<lambda>a.
     rbind (wrap_dim (length (shape t)) d1) (\<lambda>b.
       Inr \<lparr>shape = swap_dims a b (shape t), elt = (\<lambda>i. elt t (swap_dims a b i))\<rparr>))"

text \<open>\<open>torch.arange(n)\<close>, \<open>t.unsqueeze(0)\<close>, \<open>t.expand_as(x)\<close>\<close>

definition arange :: "nat \<Rightarrow> int tensor" where
  "arange n = \<lparr>shape = [n], elt = (\<lambda>i. int (last i))\<rparr>"

definition unsqueeze0 :: "'a tensor \<Rightarrow> 'a tensor" where
  "unsqueeze0 t = \<lparr>shape = 1 # shape t, elt = (\<lambda>i. elt t (tl i))\<rparr>"

definition expand_as :: "'a tensor \<Rightarrow> 'b tensor \<Rightarrow> error + 'a tensor" where
  "expand_as t x =
     (if length (shape t) \<le> length (shape x) \<and>
         list_all2 (\<lambda>d e. d = e \<or> d = 1) (shape t)
           (drop (length (shape x) - length (shape t)) (shape x))
      then Inr \<lparr>shape = shape x, elt = (\<lambda>i. elt t (bidx (shape t) i))\<rparr>
      else Inl ShapeError)"

text \<open>\<open>mask[:, None, None, :]\<close>: two full slices need two dimensions; the new axes
  have size 1.\<close>

definition getitem_mask :: "'a tensor \<Rightarrow> error + 'a tensor" where
  "getitem_mask m =
     (case shape m of
        d0 # d1 # ds \<Rightarrow> Inr \<lparr>shape = d0 # 1 # 1 # d1 # ds, elt = (\<lambda>i. elt m (hd i # drop 3 i))\<rparr>
      | _ \<Rightarrow> Inl IndexError)"

text \<open>
  \<open>a @ b\<close> for operands of two or more dimensions: the last two are the matrices, the
  rest is broadcast. (Operands of fewer dimensions do not reach a product here: both
  come out of \<open>transpose(-2, -3)\<close>, which needs three.)
\<close>

definition matmul :: "real tensor \<Rightarrow> real tensor \<Rightarrow> error + real tensor" where
  "matmul a b =
     (if length (shape a) < 2 \<or> length (shape b) < 2 then Inl ShapeError
      else if last (shape a) \<noteq> last (butlast (shape b)) then Inl ShapeError
      else
        (case broadcast_shapes (butlast (butlast (shape a))) (butlast (butlast (shape b))) of
           None \<Rightarrow> Inl ShapeError
         | Some bs \<Rightarrow>
             Inr \<lparr>shape = bs @ [last (butlast (shape a)), last (shape b)],
                  elt = (\<lambda>i. \<Sum>j\<leftarrow>[0..<last (shape a)].
                           elt a (bidx (butlast (butlast (shape a))) (butlast (butlast i))
                                    @ [last (butlast i), j])
                         * elt b (bidx (butlast (butlast (shape b))) (butlast (butlast i))
                                    @ [j, last i]))\<rparr>))"

text \<open>\<open>F.softmax(t, dim=-1)\<close>\<close>

definition softmax :: "real tensor \<Rightarrow> real tensor" where
  "softmax t =
     (case shape t of
        [] \<Rightarrow> pointwise (\<lambda>v. exp v / exp v) t
      | _ \<Rightarrow>
          \<lparr>shape = shape t,
           elt = (\<lambda>i. exp (elt t i)
                     / (\<Sum>j\<leftarrow>[0..<last (shape t)]. exp (elt t (butlast i @ [j]))))\<rparr>)"

text \<open>\<open>torch.erf\<close>, by its power series, and \<open>gelu\<close>\<close>

definition erf :: "real \<Rightarrow> real" where
  "erf x = 2 / sqrt pi * (\<Sum>n. (- 1) ^ n * x ^ (2 * n + 1) / (fact n * real (2 * n + 1)))"

definition gelu :: "real tensor \<Rightarrow> real tensor" where
  "gelu x = pointwise (\<lambda>v. v * 0.5 * (1.0 + erf (v / sqrt 2.0))) x"

section \<open>The modules of the tensor library\<close>

text \<open>
  The values of the learned parameters are not the forward pass's business: the
  constructors draw them at random and training changes them. They are read from a
  state dictionary, which gives every parameter, by its name, its elements; the
  constructors fix the shapes. Every theorem holds for all state dictionaries.
\<close>

type_synonym state_dict = "string \<Rightarrow> nat list \<Rightarrow> real"

definition parameter :: "state_dict \<Rightarrow> string \<Rightarrow> nat list \<Rightarrow> real tensor" where
  "parameter sd name sh = \<lparr>shape = sh, elt = sd name\<rparr>"

subsection \<open>\<open>nn.Embedding\<close>\<close>

record Embedding =
  emb_weight :: "real tensor"

definition nn_Embedding :: "nat \<Rightarrow> nat \<Rightarrow> state_dict \<Rightarrow> string \<Rightarrow> Embedding" where
  "nn_Embedding num_embeddings embedding_dim sd name =
     \<lparr>emb_weight = parameter sd (name @ ''.weight'') [num_embeddings, embedding_dim]\<rparr>"

text \<open>The lookup raises when an index is negative or not below the number of rows.\<close>

definition Embedding_forward :: "Embedding \<Rightarrow> int tensor \<Rightarrow> error + real tensor" where
  "Embedding_forward m x =
     (case shape (emb_weight m) of
        [num, d] \<Rightarrow>
          if list_all (\<lambda>i. 0 \<le> elt x i \<and> elt x i < int num) (indices (shape x))
          then Inr \<lparr>shape = shape x @ [d],
                    elt = (\<lambda>i. elt (emb_weight m) [nat (elt x (butlast i)), last i])\<rparr>
          else Inl IndexError
      | _ \<Rightarrow> Inl ShapeError)"

subsection \<open>\<open>nn.Linear\<close>\<close>

record Linear =
  lin_weight :: "real tensor"
  lin_bias :: "real tensor"

definition nn_Linear :: "nat \<Rightarrow> nat \<Rightarrow> state_dict \<Rightarrow> string \<Rightarrow> Linear" where
  "nn_Linear in_features out_features sd name =
     \<lparr>lin_weight = parameter sd (name @ ''.weight'') [out_features, in_features],
      lin_bias = parameter sd (name @ ''.bias'') [out_features]\<rparr>"

text \<open>The last dimension of the input must be \<open>in_features\<close>, also when the input has no
  elements.\<close>

definition Linear_forward :: "Linear \<Rightarrow> real tensor \<Rightarrow> error + real tensor" where
  "Linear_forward l x =
     (case shape (lin_weight l) of
        [out_f, in_f] \<Rightarrow>
          if shape x \<noteq> [] \<and> last (shape x) = in_f
          then Inr \<lparr>shape = butlast (shape x) @ [out_f],
                    elt = (\<lambda>i. (\<Sum>j\<leftarrow>[0..<in_f]. elt x (butlast i @ [j]) * elt (lin_weight l) [last i, j])
                              + elt (lin_bias l) [last i])\<rparr>
          else Inl ShapeError
      | _ \<Rightarrow> Inl ShapeError)"

subsection \<open>\<open>nn.LayerNorm\<close>\<close>

text \<open>
  \<open>nn.LayerNorm(d)\<close> is constructed with the size of the last dimension only, so its
  \<open>eps\<close> is the library's default, \<open>1e-05\<close>. Mean and variance are taken over the
  last dimension, the variance being the mean of the squared deviations.
\<close>

record nn_LayerNorm =
  ln_weight :: "real tensor"
  ln_bias :: "real tensor"
  ln_eps :: real

definition nn_LayerNorm_init :: "nat \<Rightarrow> state_dict \<Rightarrow> string \<Rightarrow> nn_LayerNorm" where
  "nn_LayerNorm_init normalized_shape sd name =
     \<lparr>ln_weight = parameter sd (name @ ''.weight'') [normalized_shape],
      ln_bias = parameter sd (name @ ''.bias'') [normalized_shape],
      ln_eps = 1 / 10 ^ 5\<rparr>"

definition row_mean :: "real tensor \<Rightarrow> nat list \<Rightarrow> real" where
  "row_mean x i =
     (\<Sum>j\<leftarrow>[0..<last (shape x)]. elt x (butlast i @ [j])) / real (last (shape x))"

definition row_var :: "real tensor \<Rightarrow> nat list \<Rightarrow> real" where
  "row_var x i =
     (\<Sum>j\<leftarrow>[0..<last (shape x)]. (elt x (butlast i @ [j]) - row_mean x i) ^ 2)
       / real (last (shape x))"

definition nn_LayerNorm_forward :: "nn_LayerNorm \<Rightarrow> real tensor \<Rightarrow> error + real tensor" where
  "nn_LayerNorm_forward m x =
     (case shape (ln_weight m) of
        [d] \<Rightarrow>
          if shape x \<noteq> [] \<and> last (shape x) = d
          then Inr \<lparr>shape = shape x,
                    elt = (\<lambda>i. (elt x i - row_mean x i) / sqrt (row_var x i + ln_eps m)
                                * elt (ln_weight m) [last i]
                              + elt (ln_bias m) [last i])\<rparr>
          else Inl ShapeError
      | _ \<Rightarrow> Inl ShapeError)"

section \<open>\<open>utils\<close>\<close>

text \<open>
  Modelled from the spec: \<open>split_last\<close> and \<open>merge_last\<close>, which \<open>models.py\<close> imports from
  \<open>utils\<close>. The spec: the projections are "split into \<open>heads\<close> groups along the feature
  axis, each of width \<open>D/heads\<close>"; "\<open>D\<close> must be divisible by the head count"; the
  heads are recombined "back into a single \<open>D\<close>-width feature vector". The source's
  comments: \<open>(B, S, D) -split-> (B, S, H, W)\<close>, \<open>D = H * W\<close>, \<open>-merge-> (B, S, D)\<close>.
  So \<open>split_last(x, (h, -1))\<close> turns the last dimension \<open>d\<close> into \<open>h\<close> groups of
  \<open>d / h\<close> consecutive features and fails where \<open>h\<close> does not divide \<open>d\<close>, and
  \<open>merge_last(x, 2)\<close> puts the last two dimensions back into one.
\<close>

definition split_last :: "real tensor \<Rightarrow> nat \<Rightarrow> error + real tensor" where
  "split_last x h =
     (if shape x = [] then Inl IndexError
      else if h = 0 \<or> \<not> h dvd last (shape x) then Inl ShapeError
      else Inr \<lparr>shape = butlast (shape x) @ [h, last (shape x) div h],
                elt = (\<lambda>i. elt x (butlast (butlast i)
                                    @ [last (butlast i) * (last (shape x) div h) + last i]))\<rparr>)"

text \<open>Modelled from the spec: \<open>merge_last(x, 2)\<close> of \<open>utils\<close>, which recombines the heads
  "back into a single \<open>D\<close>-width feature vector per latent position": the last two
  dimensions \<open>(H, W)\<close> become one of size \<open>H * W\<close>, the feature \<open>j\<close> being element
  \<open>j mod W\<close> of head \<open>j div W\<close>.\<close>

definition merge_last :: "real tensor \<Rightarrow> error + real tensor" where
  "merge_last x =
     (if length (shape x) < 2 then Inl ShapeError
      else Inr \<lparr>shape = butlast (butlast (shape x)) @ [last (butlast (shape x)) * last (shape x)],
                elt = (\<lambda>i. elt x (butlast i @ [last i div last (shape x), last i mod last (shape x)]))\<rparr>)"

section \<open>\<open>models.py\<close>\<close>

subsection \<open>\<open>Config\<close>\<close>

text \<open>The fields are sizes and counts, so they are natural numbers (the tensor library
  refuses a negative size when the model is constructed).\<close>

record Config =
  vocab_size :: nat
  hidden :: nat
  hidden_ff :: nat
  embedding :: nat
  n_layers :: nat
  n_heads :: nat
  max_len :: nat
  n_segments :: nat
  M :: nat
  C :: nat
  N :: nat
  D :: nat
  cross_heads :: nat
  latent_heads :: nat
  cross_dim_head :: nat
  latent_dim_head :: nat
  ffw :: nat
  process_layers :: nat

definition Config_default :: Config where
  "Config_default =
     \<lparr>vocab_size = 30000, hidden = 384, hidden_ff = 640, embedding = 64,
      n_layers = 6, n_heads = 384 div 32, max_len = 256, n_segments = 2,
      M = 256, C = 384, N = 128, D = 384,
      cross_heads = 1, latent_heads = 8, cross_dim_head = 32, latent_dim_head = 32,
      ffw = 640, process_layers = 12\<rparr>"

subsection \<open>\<open>Embeddings\<close>\<close>

record Embeddings =
  tok_embed1 :: Embedding
  tok_embed2 :: Linear
  pos_embed :: Embedding
  seg_embed :: Embedding
  norm' :: nn_LayerNorm

definition Embeddings_init :: "Config \<Rightarrow> state_dict \<Rightarrow> string \<Rightarrow> Embeddings" where
  "Embeddings_init cfg sd name =
     \<lparr>tok_embed1 = nn_Embedding (vocab_size cfg) (embedding cfg) sd (name @ ''.tok_embed1''),
      tok_embed2 = nn_Linear (embedding cfg) (hidden cfg) sd (name @ ''.tok_embed2''),
      pos_embed = nn_Embedding (max_len cfg) (hidden cfg) sd (name @ ''.pos_embed''),
      seg_embed = nn_Embedding (n_segments cfg) (hidden cfg) sd (name @ ''.seg_embed''),
      norm' = nn_LayerNorm_init (hidden cfg) sd (name @ ''.norm'')\<rparr>"

text \<open>\<open>seg\<close> is \<open>None\<close> when the caller leaves \<open>token_type_ids\<close> out; the segment lookup
  then raises.\<close>

definition Embeddings_forward ::
  "Embeddings \<Rightarrow> int tensor \<Rightarrow> int tensor option \<Rightarrow> error + real tensor" where
  "Embeddings_forward m x seg =
     rbind (tensor_size x 1) (\<lambda>seq_len.
     rbind (expand_as (unsqueeze0 (arange seq_len)) x) (\<lambda>pos.
     rbind (Embedding_forward (tok_embed1 m) x) (\<lambda>e.
     rbind (Linear_forward (tok_embed2 m) e) (\<lambda>e.
     rbind (Embedding_forward (pos_embed m) pos) (\<lambda>p.
     rbind (tensor_add e p) (\<lambda>e.
     rbind (case seg of None \<Rightarrow> Inl TypeError
            | Some sg \<Rightarrow> Embedding_forward (seg_embed m) sg) (\<lambda>s.
     rbind (tensor_add e s) (\<lambda>e.
     nn_LayerNorm_forward (norm' m) e))))))))"

subsection \<open>\<open>LayerNorm\<close>\<close>

text \<open>The class of \<open>models.py\<close> itself ("epsilon inside the square root"). No
  constructor of the file makes an instance of it.\<close>

record LayerNorm =
  gamma :: "real tensor"
  beta :: "real tensor"
  variance_epsilon :: real

definition LayerNorm_init :: "Config \<Rightarrow> state_dict \<Rightarrow> string \<Rightarrow> LayerNorm" where
  "LayerNorm_init cfg sd name =
     \<lparr>gamma = parameter sd (name @ ''.gamma'') [hidden cfg],
      beta = parameter sd (name @ ''.beta'') [hidden cfg],
      variance_epsilon = 1 / 10 ^ 12\<rparr>"

text \<open>\<open>x.mean(-1, keepdim=True)\<close>\<close>

definition mean_last :: "real tensor \<Rightarrow> real tensor" where
  "mean_last x =
     (case shape x of
        [] \<Rightarrow> x
      | _ \<Rightarrow> \<lparr>shape = butlast (shape x) @ [1], elt = (\<lambda>i. row_mean x i)\<rparr>)"

definition LayerNorm_forward :: "LayerNorm \<Rightarrow> real tensor \<Rightarrow> error + real tensor" where
  "LayerNorm_forward m x =
     (let u = mean_last x in
      rbind (binop (-) x u) (\<lambda>xu.
      let s = mean_last (pointwise (\<lambda>v. v ^ 2) xu) in
      rbind (binop (-) x u) (\<lambda>xu.
      rbind (binop (/) xu (pointwise sqrt (pointwise (\<lambda>v. v + variance_epsilon m) s))) (\<lambda>x.
      rbind (binop (*) (gamma m) x) (\<lambda>gx.
      binop (+) gx (beta m))))))"

subsection \<open>\<open>QKVAttention_cross\<close> and \<open>QKVAttention_self\<close>\<close>

text \<open>The two classes have the same fields; their constructors differ in the input
  width of the key and value projections.\<close>

record QKVAttention =
  proj_q :: Linear
  proj_k :: Linear
  proj_v :: Linear
  scores :: "real tensor option"
  n_heads' :: nat

definition QKVAttention_cross_init :: "Config \<Rightarrow> nat \<Rightarrow> state_dict \<Rightarrow> string \<Rightarrow> QKVAttention" where
  "QKVAttention_cross_init cfg heads sd name =
     \<lparr>proj_q = nn_Linear (D cfg) (D cfg) sd (name @ ''.proj_q''),
      proj_k = nn_Linear (C cfg) (D cfg) sd (name @ ''.proj_k''),
      proj_v = nn_Linear (C cfg) (D cfg) sd (name @ ''.proj_v''),
      scores = None,
      n_heads' = heads\<rparr>"

definition QKVAttention_self_init :: "Config \<Rightarrow> nat \<Rightarrow> state_dict \<Rightarrow> string \<Rightarrow> QKVAttention" where
  "QKVAttention_self_init cfg heads sd name =
     \<lparr>proj_q = nn_Linear (D cfg) (D cfg) sd (name @ ''.proj_q''),
      proj_k = nn_Linear (D cfg) (D cfg) sd (name @ ''.proj_k''),
      proj_v = nn_Linear (D cfg) (D cfg) sd (name @ ''.proj_v''),
      scores = None,
      n_heads' = heads\<rparr>"

text \<open>\<open>split_last(x, (self.n_heads, -1)).transpose(-2, -3)\<close>\<close>

definition split_heads :: "nat \<Rightarrow> real tensor \<Rightarrow> error + real tensor" where
  "split_heads h x = rbind (split_last x h) (tensor_transpose (- 2) (- 3))"

text \<open>\<open>q @ k.transpose(-2, -1) / np.sqrt(k.size(-1))\<close>\<close>

definition scaled_scores :: "real tensor \<Rightarrow> real tensor \<Rightarrow> error + real tensor" where
  "scaled_scores q k =
     rbind (tensor_transpose (- 2) (- 1) k) (\<lambda>kt.
     rbind (matmul q kt) (\<lambda>qk.
     rbind (tensor_size k (- 1)) (\<lambda>w.
     Inr (pointwise (\<lambda>v. v / sqrt (real w)) qk))))"

text \<open>\<open>if mask is not None: mask = mask[:, None, None, :].float();
  scores -= 10000.0 * (1.0 - mask)\<close>\<close>

definition masked_scores :: "real tensor \<Rightarrow> int tensor option \<Rightarrow> error + real tensor" where
  "masked_scores sc msk =
     (case msk of
        None \<Rightarrow> Inr sc
      | Some m \<Rightarrow>
          rbind (getitem_mask m) (\<lambda>m.
          isub sc (pointwise (\<lambda>v. 10000.0 * v) (pointwise (\<lambda>v. 1.0 - v) (float m)))))"

text \<open>\<open>h = (scores @ v).transpose(1, 2).contiguous(); h = merge_last(h, 2)\<close>\<close>

definition merge_heads :: "real tensor \<Rightarrow> real tensor \<Rightarrow> error + real tensor" where
  "merge_heads sc v =
     rbind (matmul sc v) (\<lambda>h.
     rbind (tensor_transpose 1 2 h) (\<lambda>h.
     merge_last h))"

text \<open>From the split into heads on, the two \<open>forward\<close> methods are the same text: the
  result is the softmax of the scores, which the caller retains, and \<open>h\<close>.\<close>

definition attention ::
  "nat \<Rightarrow> real tensor \<Rightarrow> real tensor \<Rightarrow> real tensor \<Rightarrow> int tensor option
     \<Rightarrow> error + (real tensor \<times> real tensor)" where
  "attention h q k v msk =
     rbind (split_heads h q) (\<lambda>q.
     rbind (split_heads h k) (\<lambda>k.
     rbind (split_heads h v) (\<lambda>v.
     rbind (scaled_scores q k) (\<lambda>sc.
     rbind (masked_scores sc msk) (\<lambda>sc.
     rbind (merge_heads (softmax sc) v) (\<lambda>h.
     Inr (softmax sc, h)))))))"

text \<open>\<open>self.scores = scores\<close> is the one assignment to a field: the module is returned
  with it, and unchanged when an exception leaves \<open>forward\<close> before.\<close>

definition retain :: "QKVAttention \<Rightarrow> error + (real tensor \<times> real tensor)
     \<Rightarrow> QKVAttention \<times> (error + real tensor)" where
  "retain m r =
     (case r of
        Inl e \<Rightarrow> (m, Inl e)
      | Inr (sc, h) \<Rightarrow> (m\<lparr>scores := Some sc\<rparr>, Inr h))"

definition QKVAttention_cross_forward ::
  "QKVAttention \<Rightarrow> real tensor \<Rightarrow> real tensor \<Rightarrow> int tensor option
     \<Rightarrow> QKVAttention \<times> (error + real tensor)" where
  "QKVAttention_cross_forward m x latent msk =
     retain m
       (rbind (Linear_forward (proj_q m) latent) (\<lambda>q.
        rbind (Linear_forward (proj_k m) x) (\<lambda>k.
        rbind (Linear_forward (proj_v m) x) (\<lambda>v.
        attention (n_heads' m) q k v msk))))"

definition QKVAttention_self_forward ::
  "QKVAttention \<Rightarrow> real tensor \<Rightarrow> int tensor option
     \<Rightarrow> QKVAttention \<times> (error + real tensor)" where
  "QKVAttention_self_forward m x msk =
     retain m
       (rbind (Linear_forward (proj_q m) x) (\<lambda>q.
        rbind (Linear_forward (proj_k m) x) (\<lambda>k.
        rbind (Linear_forward (proj_v m) x) (\<lambda>v.
        attention (n_heads' m) q k v msk))))"

subsection \<open>\<open>FeedForward\<close>\<close>

record FeedForward =
  fc1 :: Linear
  fc2 :: Linear

definition FeedForward_init :: "Config \<Rightarrow> state_dict \<Rightarrow> string \<Rightarrow> FeedForward" where
  "FeedForward_init cfg sd name =
     \<lparr>fc1 = nn_Linear (D cfg) (ffw cfg) sd (name @ ''.fc1''),
      fc2 = nn_Linear (ffw cfg) (D cfg) sd (name @ ''.fc2'')\<rparr>"

definition FeedForward_forward :: "FeedForward \<Rightarrow> real tensor \<Rightarrow> error + real tensor" where
  "FeedForward_forward m x =
     rbind (Linear_forward (fc1 m) x) (\<lambda>y. Linear_forward (fc2 m) (gelu y))"

subsection \<open>\<open>Transformer\<close>\<close>

text \<open>The two module lists hold an attention module and a feed-forward module each.\<close>

record Transformer =
  embed :: Embeddings
  latents :: "real tensor"
  cross_attend_blocks :: "QKVAttention \<times> FeedForward"
  layers :: "QKVAttention \<times> FeedForward"
  norm1 :: nn_LayerNorm
  norm2 :: nn_LayerNorm
  norm3 :: nn_LayerNorm
  norm4 :: nn_LayerNorm

definition Transformer_init :: "Config \<Rightarrow> state_dict \<Rightarrow> Transformer" where
  "Transformer_init cfg sd =
     \<lparr>embed = Embeddings_init cfg sd ''embed'',
      latents = parameter sd ''latents'' [N cfg, D cfg],
      cross_attend_blocks =
        (QKVAttention_cross_init cfg (cross_heads cfg) sd ''cross_attend_blocks.0'',
         FeedForward_init cfg sd ''cross_attend_blocks.1''),
      layers =
        (QKVAttention_self_init cfg (latent_heads cfg) sd ''layers.0'',
         FeedForward_init cfg sd ''layers.1''),
      norm1 = nn_LayerNorm_init (D cfg) sd ''norm1'',
      norm2 = nn_LayerNorm_init (D cfg) sd ''norm2'',
      norm3 = nn_LayerNorm_init (D cfg) sd ''norm3'',
      norm4 = nn_LayerNorm_init (D cfg) sd ''norm4''\<rparr>"

text \<open>\<open>norm(sub + x)\<close>, where \<open>sub\<close> is the result of the sub-block\<close>

definition add_norm ::
  "nn_LayerNorm \<Rightarrow> error + real tensor \<Rightarrow> real tensor \<Rightarrow> error + real tensor" where
  "add_norm nm sub x = rbind (rbind sub (\<lambda>y. tensor_add y x)) (nn_LayerNorm_forward nm)"

text \<open>The body of the loop: \<open>x = self.norm3(self_attn(x, mask = None) + x);
  x = self.norm4(self_ff(x) + x)\<close>. The attention module of \<open>self.layers\<close> retains its
  scores.\<close>

definition loop_body :: "Transformer \<Rightarrow> real tensor \<Rightarrow> Transformer \<times> (error + real tensor)" where
  "loop_body T x =
     (let (self_attn, self_ff) = layers T;
          (self_attn', a) = QKVAttention_self_forward self_attn x None
      in (T\<lparr>layers := (self_attn', self_ff)\<rparr>,
          rbind (add_norm (norm3 T) a x) (\<lambda>x.
          add_norm (norm4 T) (FeedForward_forward self_ff x) x)))"

fun loop :: "nat \<Rightarrow> Transformer \<Rightarrow> real tensor \<Rightarrow> Transformer \<times> (error + real tensor)" where
  "loop 0 T x = (T, Inr x)"
| "loop (Suc n) T x =
     (case loop_body T x of
        (T', Inl e) \<Rightarrow> (T', Inl e)
      | (T', Inr x') \<Rightarrow> loop n T' x')"

text \<open>
  \<open>forward\<close> reads the bound of its loop as \<open>cfg.process_layers\<close>. \<open>cfg\<close> is no
  parameter of \<open>forward\<close> and no field of the module (the constructor does not keep
  its argument): it is the name \<open>cfg\<close> of the module's global scope, which
  \<open>models.py\<close> itself never binds. \<open>cfg_global\<close> is what that name is bound to
  when \<open>forward\<close> runs, \<open>None\<close> when it is not bound.
\<close>

definition Transformer_forward ::
  "Config option \<Rightarrow> Transformer \<Rightarrow> int tensor \<Rightarrow> int tensor option \<Rightarrow> int tensor option
     \<Rightarrow> Transformer \<times> (error + real tensor)" where
  "Transformer_forward cfg_global T input_ids token_type_ids attention_mask =
     (case Embeddings_forward (embed T) input_ids token_type_ids of
        Inl e \<Rightarrow> (T, Inl e)
      | Inr h \<Rightarrow>
          let (cross_attn, cross_ff) = cross_attend_blocks T;
              (cross_attn', a) = QKVAttention_cross_forward cross_attn h (latents T) attention_mask;
              T' = T\<lparr>cross_attend_blocks := (cross_attn', cross_ff)\<rparr>
          in (case rbind (add_norm (norm1 T) a (latents T)) (\<lambda>x.
                   add_norm (norm2 T) (FeedForward_forward cross_ff x) x) of
                Inl e \<Rightarrow> (T', Inl e)
              | Inr x \<Rightarrow>
                  (case cfg_global of
                     None \<Rightarrow> (T', Inl NameError)
                   | Some cfg \<Rightarrow> loop (process_layers cfg) T' x)))"

section \<open>Tensors in memory\<close>

text \<open>
  The definitions above pass tensors by value. Python passes references: \<open>forward\<close>
  receives its inputs as references to tensors that the caller keeps, and a statement
  that updates a tensor in place changes what every holder of a reference sees. Two
  kinds of statement in \<open>models.py\<close> write something that exists already:
  \<open>scores -= 10000.0 * (1.0 - mask)\<close>, in place (lines 126 and 163), and
  \<open>self.scores = scores\<close>, a field of the module (lines 135 and 170).

  The heap holds the tensors that have an address here: those that exist when
  \<open>forward\<close> is called, the inputs among them, and the tensor \<open>scores\<close>, which line 123
  creates and line 126 updates in place. Every other tensor of the pass is the new
  result of an operation that no statement writes, and stays a value. A cell holds an
  integer tensor or a float tensor; a reference is the cell's address; the addresses
  below \<open>allocated\<close> are in use.
\<close>

datatype cell = Ints "int tensor" | Floats "real tensor"

record heap =
  cells :: "nat \<Rightarrow> cell"
  allocated :: nat

text \<open>The result of an operation is a new tensor: it gets the next address.\<close>

definition new_tensor :: "real tensor \<Rightarrow> heap \<Rightarrow> heap \<times> nat" where
  "new_tensor t \<sigma> =
     (\<sigma>\<lparr>cells := (cells \<sigma>)(allocated \<sigma> := Floats t), allocated := Suc (allocated \<sigma>)\<rparr>,
      allocated \<sigma>)"

text \<open>\<open>a -= b\<close> writes the cell of \<open>a\<close>. The tensor library refuses to write a
  float result into an integer tensor.\<close>

definition isub_inplace :: "nat \<Rightarrow> real tensor \<Rightarrow> heap \<Rightarrow> heap \<times> (error + unit)" where
  "isub_inplace a b \<sigma> =
     (case cells \<sigma> a of
        Ints t \<Rightarrow> (\<sigma>, Inl TypeError)
      | Floats t \<Rightarrow>
          (case isub t b of
             Inl e \<Rightarrow> (\<sigma>, Inl e)
           | Inr t' \<Rightarrow> (\<sigma>\<lparr>cells := (cells \<sigma>)(a := Floats t')\<rparr>, Inr ())))"

definition read_float :: "heap \<Rightarrow> nat \<Rightarrow> error + real tensor" where
  "read_float \<sigma> a = (case cells \<sigma> a of Ints t \<Rightarrow> Inl TypeError | Floats t \<Rightarrow> Inr t)"

text \<open>\<open>mask[:, None, None, :].float()\<close>: the indexing is a view; \<open>.float()\<close> converts an
  integer tensor to a new float tensor and returns a float tensor as it is, so the
  local \<open>mask\<close> may then be a view of the caller's mask.\<close>

definition mask_float :: "heap \<Rightarrow> nat \<Rightarrow> error + real tensor" where
  "mask_float \<sigma> a =
     (case cells \<sigma> a of
        Ints t \<Rightarrow> rbind (getitem_mask t) (\<lambda>m. Inr (float m))
      | Floats t \<Rightarrow> getitem_mask t)"

text \<open>\<open>if mask is not None: mask = mask[:, None, None, :].float();
  scores -= 10000.0 * (1.0 - mask)\<close>, with \<open>scores\<close> and \<open>mask\<close> as references. The
  right-hand side is a new tensor; the write goes to the cell of \<open>scores\<close>.\<close>

definition masked_scores_h :: "nat \<Rightarrow> nat option \<Rightarrow> heap \<Rightarrow> heap \<times> (error + unit)" where
  "masked_scores_h scores_ref msk \<sigma> =
     (case msk of
        None \<Rightarrow> (\<sigma>, Inr ())
      | Some a \<Rightarrow>
          (case mask_float \<sigma> a of
             Inl e \<Rightarrow> (\<sigma>, Inl e)
           | Inr m \<Rightarrow>
               isub_inplace scores_ref
                 (pointwise (\<lambda>v. 10000.0 * v) (pointwise (\<lambda>v. 1.0 - v) m)) \<sigma>))"

text \<open>The common text of the two \<open>forward\<close> methods, from the split into heads on.
  \<open>scores = q @ k.transpose(-2, -1) / np.sqrt(k.size(-1))\<close> creates the tensor that
  the next statement updates; \<open>scores = F.softmax(scores, dim=-1)\<close> reads it and binds
  the name to a new tensor.\<close>

definition attention_h ::
  "nat \<Rightarrow> real tensor \<Rightarrow> real tensor \<Rightarrow> real tensor \<Rightarrow> nat option \<Rightarrow> heap
     \<Rightarrow> heap \<times> (error + (real tensor \<times> real tensor))" where
  "attention_h h q k v msk \<sigma> =
     (case rbind (split_heads h q) (\<lambda>q.
           rbind (split_heads h k) (\<lambda>k.
           rbind (split_heads h v) (\<lambda>v.
           rbind (scaled_scores q k) (\<lambda>sc. Inr (sc, v))))) of
        Inl e \<Rightarrow> (\<sigma>, Inl e)
      | Inr (sc, v) \<Rightarrow>
          (let (\<sigma>1, scores_ref) = new_tensor sc \<sigma> in
           (case masked_scores_h scores_ref msk \<sigma>1 of
              (\<sigma>2, Inl e) \<Rightarrow> (\<sigma>2, Inl e)
            | (\<sigma>2, Inr u) \<Rightarrow>
                (\<sigma>2, rbind (read_float \<sigma>2 scores_ref) (\<lambda>sc.
                     rbind (merge_heads (softmax sc) v) (\<lambda>h.
                     Inr (softmax sc, h)))))))"

text \<open>\<open>self.scores = scores\<close>, with the heap passed on.\<close>

definition thread_retain ::
  "QKVAttention \<Rightarrow> heap \<times> (error + (real tensor \<times> real tensor))
     \<Rightarrow> heap \<times> QKVAttention \<times> (error + real tensor)" where
  "thread_retain m p = (fst p, retain m (snd p))"

definition QKVAttention_cross_forward_h ::
  "QKVAttention \<Rightarrow> real tensor \<Rightarrow> real tensor \<Rightarrow> nat option \<Rightarrow> heap
     \<Rightarrow> heap \<times> QKVAttention \<times> (error + real tensor)" where
  "QKVAttention_cross_forward_h m x latent msk \<sigma> =
     thread_retain m
       (case rbind (Linear_forward (proj_q m) latent) (\<lambda>q.
             rbind (Linear_forward (proj_k m) x) (\<lambda>k.
             rbind (Linear_forward (proj_v m) x) (\<lambda>v. Inr (q, k, v)))) of
          Inl e \<Rightarrow> (\<sigma>, Inl e)
        | Inr (q, k, v) \<Rightarrow> attention_h (n_heads' m) q k v msk \<sigma>)"

definition QKVAttention_self_forward_h ::
  "QKVAttention \<Rightarrow> real tensor \<Rightarrow> nat option \<Rightarrow> heap
     \<Rightarrow> heap \<times> QKVAttention \<times> (error + real tensor)" where
  "QKVAttention_self_forward_h m x msk \<sigma> =
     thread_retain m
       (case rbind (Linear_forward (proj_q m) x) (\<lambda>q.
             rbind (Linear_forward (proj_k m) x) (\<lambda>k.
             rbind (Linear_forward (proj_v m) x) (\<lambda>v. Inr (q, k, v)))) of
          Inl e \<Rightarrow> (\<sigma>, Inl e)
        | Inr (q, k, v) \<Rightarrow> attention_h (n_heads' m) q k v msk \<sigma>)"

text \<open>\<open>Embeddings.forward\<close> reads its two inputs and writes nothing. An embedding lookup
  needs integer indices: float token ids raise at \<open>self.tok_embed1(x)\<close>, float segment
  ids at \<open>self.seg_embed(seg)\<close>, where an absent \<open>seg\<close> raises too.\<close>

definition Embeddings_forward_h :: "Embeddings \<Rightarrow> nat \<Rightarrow> nat option \<Rightarrow> heap \<Rightarrow> error + real tensor" where
  "Embeddings_forward_h m x seg \<sigma> =
     (case cells \<sigma> x of
        Ints t \<Rightarrow>
          Embeddings_forward m t
            (case seg of
               None \<Rightarrow> None
             | Some a \<Rightarrow> (case cells \<sigma> a of Ints s \<Rightarrow> Some s | Floats s \<Rightarrow> None))
      | Floats t \<Rightarrow>
          rbind (tensor_size t 1) (\<lambda>seq_len.
          rbind (expand_as (unsqueeze0 (arange seq_len)) t) (\<lambda>pos. Inl TypeError)))"

text \<open>The loop and \<open>Transformer.forward\<close>, with the inputs as references.\<close>

definition loop_body_h ::
  "Transformer \<Rightarrow> real tensor \<Rightarrow> heap \<Rightarrow> heap \<times> Transformer \<times> (error + real tensor)" where
  "loop_body_h T x \<sigma> =
     (let (self_attn, self_ff) = layers T;
          (\<sigma>', self_attn', a) = QKVAttention_self_forward_h self_attn x None \<sigma>
      in (\<sigma>', T\<lparr>layers := (self_attn', self_ff)\<rparr>,
          rbind (add_norm (norm3 T) a x) (\<lambda>x.
          add_norm (norm4 T) (FeedForward_forward self_ff x) x)))"

fun loop_h ::
  "nat \<Rightarrow> Transformer \<Rightarrow> real tensor \<Rightarrow> heap \<Rightarrow> heap \<times> Transformer \<times> (error + real tensor)" where
  "loop_h 0 T x \<sigma> = (\<sigma>, T, Inr x)"
| "loop_h (Suc n) T x \<sigma> =
     (case loop_body_h T x \<sigma> of
        (\<sigma>', T', Inl e) \<Rightarrow> (\<sigma>', T', Inl e)
      | (\<sigma>', T', Inr x') \<Rightarrow> loop_h n T' x' \<sigma>')"

definition Transformer_forward_h ::
  "Config option \<Rightarrow> Transformer \<Rightarrow> nat \<Rightarrow> nat option \<Rightarrow> nat option \<Rightarrow> heap
     \<Rightarrow> heap \<times> Transformer \<times> (error + real tensor)" where
  "Transformer_forward_h cfg_global T input_ids token_type_ids attention_mask \<sigma> =
     (case Embeddings_forward_h (embed T) input_ids token_type_ids \<sigma> of
        Inl e \<Rightarrow> (\<sigma>, T, Inl e)
      | Inr h \<Rightarrow>
          let (cross_attn, cross_ff) = cross_attend_blocks T;
              (\<sigma>', cross_attn', a) =
                 QKVAttention_cross_forward_h cross_attn h (latents T) attention_mask \<sigma>;
              T' = T\<lparr>cross_attend_blocks := (cross_attn', cross_ff)\<rparr>
          in (case rbind (add_norm (norm1 T) a (latents T)) (\<lambda>x.
                   add_norm (norm2 T) (FeedForward_forward cross_ff x) x) of
                Inl e \<Rightarrow> (\<sigma>', T', Inl e)
              | Inr x \<Rightarrow>
                  (case cfg_global of
                     None \<Rightarrow> (\<sigma>', T', Inl NameError)
                   | Some cfg \<Rightarrow> loop_h (process_layers cfg) T' x \<sigma>')))"

section \<open>Notions the statements use\<close>

text \<open>A call returns a tensor of the given shape (and raises nothing).\<close>

definition returns :: "error + 'a tensor \<Rightarrow> nat list \<Rightarrow> bool" where
  "returns r sh = (case r of Inl e \<Rightarrow> False | Inr t \<Rightarrow> shape t = sh)"

text \<open>Every element of an integer tensor of shape \<open>[b, s]\<close> is an index into a table of
  \<open>n\<close> rows.\<close>

definition in_bounds :: "int tensor \<Rightarrow> nat \<Rightarrow> nat \<Rightarrow> nat \<Rightarrow> bool" where
  "in_bounds x b s n = (\<forall>i<b. \<forall>j<s. 0 \<le> elt x [i, j] \<and> elt x [i, j] < int n)"

text \<open>The layer normalization in the spec's words: "for each feature vector (last axis),
  compute mean \<open>u\<close> and variance \<open>s\<close> over that axis; output
  \<open>scale * (x - u) / sqrt(s + eps) + shift\<close>". This is the element at the index \<open>i\<close>.\<close>

definition spec_layer_norm :: "real tensor \<Rightarrow> real tensor \<Rightarrow> real \<Rightarrow> real tensor \<Rightarrow> nat list \<Rightarrow> real" where
  "spec_layer_norm scale shift eps x i =
     (let d = last (shape x);
          u = (\<Sum>j\<leftarrow>[0..<d]. elt x (butlast i @ [j])) / real d;
          s = (\<Sum>j\<leftarrow>[0..<d]. (elt x (butlast i @ [j]) - u) ^ 2) / real d
      in elt scale [last i] * (elt x i - u) / sqrt (s + eps) + elt shift [last i])"

text \<open>The value of \<open>scores\<close> in \<open>QKVAttention_cross.forward\<close> before the mask is
  looked at: the scaled products of the queries and the keys, head by head.\<close>

definition cross_scores :: "QKVAttention \<Rightarrow> real tensor \<Rightarrow> real tensor \<Rightarrow> error + real tensor" where
  "cross_scores m x latent =
     rbind (Linear_forward (proj_q m) latent) (\<lambda>q.
     rbind (Linear_forward (proj_k m) x) (\<lambda>k.
     rbind (Linear_forward (proj_v m) x) (\<lambda>v.
     rbind (split_heads (n_heads' m) q) (\<lambda>q.
     rbind (split_heads (n_heads' m) k) (\<lambda>k.
     rbind (split_heads (n_heads' m) v) (\<lambda>v.
     scaled_scores q k))))))"

text \<open>The spec's words for the forward pass. "Repeat \<open>process_layers\<close> times": a step that
  may fail, repeated; the first failure ends the repetition.\<close>

fun iterate :: "nat \<Rightarrow> ('a \<Rightarrow> error + 'a) \<Rightarrow> 'a \<Rightarrow> error + 'a" where
  "iterate 0 f x = Inr x"
| "iterate (Suc n) f x = rbind (f x) (iterate n f)"

text \<open>One round: "\<open>x = norm3(self_attend(x, mask=None) + x)\<close> then
  \<open>x = norm4(self_feed_forward(x) + x)\<close>", as a function of the two modules of
  \<open>layers\<close> and the two normalizations.\<close>

definition self_round ::
  "QKVAttention \<times> FeedForward \<Rightarrow> nn_LayerNorm \<Rightarrow> nn_LayerNorm \<Rightarrow> real tensor \<Rightarrow> error + real tensor" where
  "self_round ls n3 n4 x =
     rbind (add_norm n3 (snd (QKVAttention_self_forward (fst ls) x None)) x) (\<lambda>x.
     add_norm n4 (FeedForward_forward (snd ls) x) x)"

text \<open>Steps 1 to 3: "\<open>h = embed(token_ids, segment_ids)\<close>",
  "\<open>x = norm1(cross_attend(h, latents, attention_mask) + latents)\<close>",
  "\<open>x = norm2(feed_forward(x) + x)\<close>".\<close>

definition cross_block ::
  "Transformer \<Rightarrow> int tensor \<Rightarrow> int tensor option \<Rightarrow> int tensor option \<Rightarrow> error + real tensor" where
  "cross_block T token_ids segment_ids attention_mask =
     rbind (Embeddings_forward (embed T) token_ids segment_ids) (\<lambda>h.
     rbind (add_norm (norm1 T)
              (snd (QKVAttention_cross_forward (fst (cross_attend_blocks T)) h (latents T) attention_mask))
              (latents T)) (\<lambda>x.
     add_norm (norm2 T) (FeedForward_forward (snd (cross_attend_blocks T)) x) x))"

text \<open>The whole sequence, with the number of rounds of a configuration \<open>cfg\<close>.\<close>

definition spec_forward ::
  "Config \<Rightarrow> Transformer \<Rightarrow> int tensor \<Rightarrow> int tensor option \<Rightarrow> int tensor option \<Rightarrow> error + real tensor" where
  "spec_forward cfg T token_ids segment_ids attention_mask =
     rbind (cross_block T token_ids segment_ids attention_mask)
       (iterate (process_layers cfg) (self_round (layers T) (norm3 T) (norm4 T)))"

text \<open>A module whose two attention modules retain the scores \<open>s1\<close> and \<open>s2\<close>; nothing
  else differs from \<open>T\<close>.\<close>

definition with_scores ::
  "real tensor option \<Rightarrow> real tensor option \<Rightarrow> Transformer \<Rightarrow> Transformer" where
  "with_scores s1 s2 T =
     T\<lparr>cross_attend_blocks := ((fst (cross_attend_blocks T))\<lparr>scores := s1\<rparr>, snd (cross_attend_blocks T)),
       layers := ((fst (layers T))\<lparr>scores := s2\<rparr>, snd (layers T))\<rparr>"

text \<open>
  The inputs and configurations on which \<open>forward\<close> is defined, for token ids and
  segment ids of shape \<open>[b, s]\<close>: every token id and segment id is an index of its
  table; the sequence is not longer than \<open>max_len\<close> (or the batch is empty); the embedded
  width is the input width of the cross-attention; the cross-attention heads divide
  \<open>D\<close>; the name \<open>cfg\<close> is bound where \<open>forward\<close> runs; and the heads of the
  self-attention divide \<open>D\<close>, unless no round is run.
\<close>

definition forward_defined :: "Config option \<Rightarrow> Config \<Rightarrow> int tensor \<Rightarrow> int tensor \<Rightarrow> nat \<Rightarrow> nat \<Rightarrow> bool" where
  "forward_defined g cfg token_ids segment_ids b s \<longleftrightarrow>
     in_bounds token_ids b s (vocab_size cfg) \<and> in_bounds segment_ids b s (n_segments cfg)
     \<and> (b = 0 \<or> s \<le> max_len cfg)
     \<and> hidden cfg = C cfg
     \<and> 0 < cross_heads cfg \<and> cross_heads cfg dvd D cfg
     \<and> (case g of None \<Rightarrow> False
         | Some c \<Rightarrow> process_layers c = 0 \<or> (0 < latent_heads cfg \<and> latent_heads cfg dvd D cfg))"

text \<open>Every tensor that is in use in the heap \<open>\<sigma>\<close> is in use in \<open>\<sigma>'\<close> and is the
  same there.\<close>

definition extends :: "heap \<Rightarrow> heap \<Rightarrow> bool" where
  "extends \<sigma> \<sigma>' \<longleftrightarrow> allocated \<sigma> \<le> allocated \<sigma>' \<and> (\<forall>a<allocated \<sigma>. cells \<sigma>' a = cells \<sigma> a)"

text \<open>What a reference holds when it is a reference to an integer tensor in use (or
  absent).\<close>

definition int_tensor_at :: "heap \<Rightarrow> nat option \<Rightarrow> int tensor option" where
  "int_tensor_at \<sigma> r =
     (case r of None \<Rightarrow> None
      | Some a \<Rightarrow> (case cells \<sigma> a of Ints t \<Rightarrow> Some t | Floats t \<Rightarrow> None))"

definition holds_ints :: "heap \<Rightarrow> nat option \<Rightarrow> bool" where
  "holds_ints \<sigma> r =
     (case r of None \<Rightarrow> True
      | Some a \<Rightarrow> a < allocated \<sigma> \<and> (case cells \<sigma> a of Ints t \<Rightarrow> True | Floats t \<Rightarrow> False))"

subsection \<open>Concrete inputs\<close>

text \<open>The end-to-end scenario of the spec: \<open>vocab_size=100, hidden=8, embedding=4,
  D=C=8, N=4, process_layers=2, heads=2\<close>, \<open>token_ids=[[1,2,3]]\<close>,
  \<open>segment_ids=[[0,0,0]]\<close>, \<open>mask=[[1,1,1]]\<close>; the other fields keep their defaults,
  and every parameter is 0.\<close>

definition cfg_example :: Config where
  "cfg_example =
     Config_default\<lparr>vocab_size := 100, hidden := 8, embedding := 4, C := 8, N := 4, D := 8,
       cross_heads := 2, latent_heads := 2, process_layers := 2\<rparr>"

definition token_ids_example :: "int tensor" where
  "token_ids_example = \<lparr>shape = [1, 3], elt = (\<lambda>i. int (last i) + 1)\<rparr>"

definition segment_ids_example :: "int tensor" where
  "segment_ids_example = \<lparr>shape = [1, 3], elt = (\<lambda>i. 0)\<rparr>"

definition mask_example :: "int tensor" where
  "mask_example = \<lparr>shape = [1, 3], elt = (\<lambda>i. 1)\<rparr>"

definition sd_example :: state_dict where
  "sd_example = (\<lambda>name i. 0)"

text \<open>A batch of no sequences, each of 257 tokens (one more than the default
  \<open>max_len\<close>).\<close>

definition empty_batch :: "int tensor" where
  "empty_batch = \<lparr>shape = [0, 257], elt = (\<lambda>i. 0)\<rparr>"

text \<open>A configuration of width 2, parameters that are all 1, and the feature vector
  \<open>[1, -1]\<close> (mean 0, variance 1).\<close>

definition cfg_two :: Config where
  "cfg_two = cfg_example\<lparr>hidden := 2, C := 2, D := 2\<rparr>"

definition sd_one :: state_dict where
  "sd_one = (\<lambda>name i. 1)"

definition plus_minus_one :: "real tensor" where
  "plus_minus_one = \<lparr>shape = [2], elt = (\<lambda>i. if last i = 0 then 1 else - 1)\<rparr>"

text \<open>An embedded sequence for the scenario (one row of three positions, width 8), and
  a mask that keeps the first two positions.\<close>

definition embedded_example :: "real tensor" where
  "embedded_example = \<lparr>shape = [1, 3, 8], elt = (\<lambda>i. 0)\<rparr>"

definition mask_padded :: "int tensor" where
  "mask_padded = \<lparr>shape = [1, 3], elt = (\<lambda>i. if last i < 2 then 1 else 0)\<rparr>"

text \<open>Two configurations with two cross-attention heads: in the first they divide \<open>D\<close>
  and not \<open>C\<close>, in the second \<open>C\<close> and not \<open>D\<close>. A tensor of zeros of a given shape.\<close>

definition cfg_c3 :: Config where
  "cfg_c3 = cfg_example\<lparr>hidden := 3, C := 3, D := 4, cross_heads := 2\<rparr>"

definition cfg_d3 :: Config where
  "cfg_d3 = cfg_example\<lparr>hidden := 4, C := 4, D := 3, cross_heads := 2\<rparr>"

definition zeros :: "nat list \<Rightarrow> real tensor" where
  "zeros sh = \<lparr>shape = sh, elt = (\<lambda>i. 0)\<rparr>"

text \<open>A configuration whose embedded width \<open>hidden = 8\<close> is not the input width
  \<open>C = 4\<close> of the cross-attention.\<close>

definition cfg_narrow :: Config where
  "cfg_narrow = cfg_example\<lparr>C := 4\<rparr>"

text \<open>A heap with the three inputs of the scenario at the addresses 0, 1 and 2.\<close>

definition heap_example :: heap where
  "heap_example =
     \<lparr>cells = (\<lambda>a. if a = 0 then Ints token_ids_example
                   else if a = 1 then Ints segment_ids_example
                   else Ints mask_example),
      allocated = 3\<rparr>"

section \<open>Shapes of the tensor operations\<close>

declare indices.simps [simp del]

lemma rbind_simps [simp]: "rbind (Inl e) f = Inl e" "rbind (Inr x) f = f x"
  by (simp_all add: rbind_def)

lemma returns_Inr [simp]: "returns (Inr t) sh \<longleftrightarrow> shape t = sh" "\<not> returns (Inl e) sh"
  by (simp_all add: returns_def)

lemma returnsE: "returns r sh \<Longrightarrow> \<exists>t. r = Inr t \<and> shape t = sh"
  by (cases r) (simp_all)

lemma returns_bind:
  "returns m sh \<Longrightarrow> (\<And>t. shape t = sh \<Longrightarrow> returns (f t) sh') \<Longrightarrow> returns (rbind m f) sh'"
  by (cases m) simp_all

lemma broadcast_rev_same: "broadcast_rev xs xs = Some xs"
  by (induction xs) simp_all

lemma broadcast_rev_prefix: "broadcast_rev (xs @ ys) xs = Some (xs @ ys)"
  by (induction xs) (simp_all, cases ys, simp_all)

lemma broadcast_shapes_same [simp]: "broadcast_shapes sh sh = Some sh"
  by (simp add: broadcast_shapes_def broadcast_rev_same)

lemma broadcast_shapes_suffix [simp]: "broadcast_shapes (pre @ sh) sh = Some (pre @ sh)"
  by (simp add: broadcast_shapes_def broadcast_rev_prefix)

lemma tensor_add_same: "shape a = sh \<Longrightarrow> shape b = sh \<Longrightarrow> returns (tensor_add a b) sh"
  by (simp add: tensor_add_def binop_def)

lemma tensor_add_suffix: "shape a = pre @ sh \<Longrightarrow> shape b = sh \<Longrightarrow> returns (tensor_add a b) (pre @ sh)"
  by (simp add: tensor_add_def binop_def)

lemma Linear_forward_shape:
  "shape (lin_weight l) = [o_f, i_f] \<Longrightarrow> shape x = sh @ [i_f] \<Longrightarrow> returns (Linear_forward l x) (sh @ [o_f])"
  by (simp add: Linear_forward_def)

lemma nn_LayerNorm_forward_shape:
  "shape (ln_weight m) = [d] \<Longrightarrow> shape x = sh @ [d] \<Longrightarrow> returns (nn_LayerNorm_forward m x) (sh @ [d])"
  by (simp add: nn_LayerNorm_forward_def)

lemma split_heads3:
  "shape x = [b, s, d] \<Longrightarrow> 0 < h \<Longrightarrow> h dvd d \<Longrightarrow> returns (split_heads h x) [b, h, s, d div h]"
  by (simp add: split_heads_def split_last_def tensor_transpose_def wrap_dim_def swap_dims_def)

lemma split_heads2:
  "shape x = [s, d] \<Longrightarrow> 0 < h \<Longrightarrow> h dvd d \<Longrightarrow> returns (split_heads h x) [h, s, d div h]"
  by (simp add: split_heads_def split_last_def tensor_transpose_def wrap_dim_def swap_dims_def)

lemma scaled_scores_cross:
  "shape q = [h, n, w] \<Longrightarrow> shape k = [b, h, s, w] \<Longrightarrow> returns (scaled_scores q k) [b, h, n, s]"
  by (simp add: scaled_scores_def tensor_transpose_def wrap_dim_def swap_dims_def matmul_def
      tensor_size_def pointwise_def broadcast_shapes_def)

lemma scaled_scores_self:
  "shape q = [b, h, n, w] \<Longrightarrow> shape k = [b, h, s, w] \<Longrightarrow> returns (scaled_scores q k) [b, h, n, s]"
  by (simp add: scaled_scores_def tensor_transpose_def wrap_dim_def swap_dims_def matmul_def
      tensor_size_def pointwise_def broadcast_shapes_def)

lemma masked_scores_None: "masked_scores sc None = Inr sc"
  by (simp add: masked_scores_def)

lemma masked_scores_Some:
  "shape sc = [b, h, n, s] \<Longrightarrow> shape m = [b, s] \<Longrightarrow> returns (masked_scores sc (Some m)) [b, h, n, s]"
  by (simp add: masked_scores_def getitem_mask_def isub_def binop_def pointwise_def float_def broadcast_shapes_def)

lemma merge_heads_shape:
  "shape sc = [b, h, n, s] \<Longrightarrow> shape v = [b, h, s, w] \<Longrightarrow> returns (merge_heads sc v) [b, n, h * w]"
  by (simp add: merge_heads_def matmul_def tensor_transpose_def wrap_dim_def swap_dims_def merge_last_def)


lemma set_indices: "set (indices sh) = {i. list_all2 (<) i sh}"
proof (induction sh)
  case Nil
  then show ?case by (simp add: indices.simps)
next
  case (Cons d ds)
  show ?case
  proof (rule set_eqI)
    fix i
    show "i \<in> set (indices (d # ds)) \<longleftrightarrow> i \<in> {i. list_all2 (<) i (d # ds)}"
      using Cons by (cases i) (auto simp: list_all2_Cons2 indices.simps)
  qed
qed

lemma list_all_indices2:
  "list_all P (indices [b, s]) \<longleftrightarrow> (\<forall>i<b. \<forall>j<s. P [i, j])"
  by (auto simp: list_all_iff set_indices list_all2_Cons2)

lemma tensor_size_1: "shape x = [b, s] \<Longrightarrow> tensor_size x 1 = Inr s"
  by (simp add: tensor_size_def wrap_dim_def)

lemma positions:
  "shape x = [b, s] \<Longrightarrow>
     expand_as (unsqueeze0 (arange s)) x =
       Inr \<lparr>shape = [b, s], elt = (\<lambda>i. elt (unsqueeze0 (arange s)) (bidx [1, s] i))\<rparr>"
  by (simp add: expand_as_def unsqueeze0_def arange_def)

lemma position_elt:
  "j < s \<Longrightarrow> elt (unsqueeze0 (arange s)) (bidx [Suc 0, s] [i, j]) = int j"
  by (simp add: unsqueeze0_def arange_def bidx_def)

lemma Embedding_forward2:
  "shape (emb_weight m) = [n, d] \<Longrightarrow> shape x = [b, s] \<Longrightarrow>
   Embedding_forward m x =
     (if in_bounds x b s n
      then Inr \<lparr>shape = [b, s, d], elt = (\<lambda>i. elt (emb_weight m) [nat (elt x (butlast i)), last i])\<rparr>
      else Inl IndexError)"
  by (simp add: Embedding_forward_def list_all_indices2 in_bounds_def)

lemma in_bounds_positions:
  "in_bounds \<lparr>shape = [b, s], elt = (\<lambda>i. elt (unsqueeze0 (arange s)) (bidx [Suc 0, s] i))\<rparr> b s n
     \<longleftrightarrow> b = 0 \<or> s \<le> n"
proof -
  have "(\<forall>i<b. \<forall>j<s. j < n) \<longleftrightarrow> b = 0 \<or> s \<le> n"
  proof
    assume h: "\<forall>i<b. \<forall>j<s. j < n"
    show "b = 0 \<or> s \<le> n"
    proof (cases "b = 0")
      case False
      then have "\<forall>j<s. j < n" using h by auto
      then have "s \<le> n" by (meson not_le_imp_less order.strict_implies_not_eq order_less_le)
      then show ?thesis ..
    qed simp
  qed auto
  then show ?thesis by (simp add: in_bounds_def position_elt)
qed

lemma Embeddings_forward_eq:
  assumes "shape x = [b, s]" "shape sg = [b, s]"
  shows "returns (Embeddings_forward (Embeddings_init cfg sd name) x (Some sg)) [b, s, hidden cfg]
           \<longleftrightarrow> in_bounds x b s (vocab_size cfg) \<and> in_bounds sg b s (n_segments cfg)
                \<and> (b = 0 \<or> s \<le> max_len cfg)"
    and "isl (Embeddings_forward (Embeddings_init cfg sd name) x (Some sg))
           \<longleftrightarrow> \<not> (in_bounds x b s (vocab_size cfg) \<and> in_bounds sg b s (n_segments cfg)
                \<and> (b = 0 \<or> s \<le> max_len cfg))"
  using assms
  by (simp_all add: Embeddings_forward_def Embeddings_init_def tensor_size_1 positions
      Embedding_forward2 nn_Embedding_def parameter_def in_bounds_positions
      Linear_forward_def nn_Linear_def tensor_add_def binop_def nn_LayerNorm_forward_def nn_LayerNorm_init_def)


lemma mult_div_dvd: "h dvd d \<Longrightarrow> h * (d div h) = (d::nat)"
  by simp

lemma mask_cases:
  "(case msk of None \<Rightarrow> True | Some m \<Rightarrow> shape m = [b, s]) \<Longrightarrow> shape sc = [b, h, n, s]
     \<Longrightarrow> returns (masked_scores sc msk) [b, h, n, s]"
  by (cases msk) (simp_all add: masked_scores_None masked_scores_Some)

lemma attention_cross_shape:
  assumes "shape q = [n, d]" "shape k = [b, s, d]" "shape v = [b, s, d]" "0 < h" "h dvd d"
    "case msk of None \<Rightarrow> True | Some m \<Rightarrow> shape m = [b, s]"
  shows "\<exists>sc y. attention h q k v msk = Inr (sc, y) \<and> shape y = [b, n, d]"
proof -
  obtain q' where q': "split_heads h q = Inr q'" "shape q' = [h, n, d div h]"
    using returnsE [OF split_heads2 [OF assms(1,4,5)]] by blast
  obtain k' where k': "split_heads h k = Inr k'" "shape k' = [b, h, s, d div h]"
    using returnsE [OF split_heads3 [OF assms(2,4,5)]] by blast
  obtain v' where v': "split_heads h v = Inr v'" "shape v' = [b, h, s, d div h]"
    using returnsE [OF split_heads3 [OF assms(3,4,5)]] by blast
  obtain sc where sc: "scaled_scores q' k' = Inr sc" "shape sc = [b, h, n, s]"
    using returnsE [OF scaled_scores_cross [OF q'(2) k'(2)]] by blast
  obtain sc' where sc': "masked_scores sc msk = Inr sc'" "shape sc' = [b, h, n, s]"
    using returnsE [OF mask_cases [OF assms(6) sc(2)]] by blast
  have "shape (softmax sc') = [b, h, n, s]"
    using sc'(2) by (simp add: softmax_def)
  then obtain y where y: "merge_heads (softmax sc') v' = Inr y" "shape y = [b, n, h * (d div h)]"
    using returnsE [OF merge_heads_shape [OF _ v'(2)]] by blast
  show ?thesis
    using q' k' v' sc sc' y assms(5) by (simp add: attention_def)
qed

lemma attention_self_shape:
  assumes "shape q = [b, n, d]" "shape k = [b, n, d]" "shape v = [b, n, d]" "0 < h" "h dvd d"
  shows "\<exists>sc y. attention h q k v None = Inr (sc, y) \<and> shape y = [b, n, d]"
proof -
  obtain q' where q': "split_heads h q = Inr q'" "shape q' = [b, h, n, d div h]"
    using returnsE [OF split_heads3 [OF assms(1,4,5)]] by blast
  obtain k' where k': "split_heads h k = Inr k'" "shape k' = [b, h, n, d div h]"
    using returnsE [OF split_heads3 [OF assms(2,4,5)]] by blast
  obtain v' where v': "split_heads h v = Inr v'" "shape v' = [b, h, n, d div h]"
    using returnsE [OF split_heads3 [OF assms(3,4,5)]] by blast
  obtain sc where sc: "scaled_scores q' k' = Inr sc" "shape sc = [b, h, n, n]"
    using returnsE [OF scaled_scores_self [OF q'(2) k'(2)]] by blast
  have "shape (softmax sc) = [b, h, n, n]"
    using sc(2) by (simp add: softmax_def)
  then obtain y where y: "merge_heads (softmax sc) v' = Inr y" "shape y = [b, n, h * (d div h)]"
    using returnsE [OF merge_heads_shape [OF _ v'(2)]] by blast
  show ?thesis
    using q' k' v' sc y assms(5) by (simp add: attention_def masked_scores_None)
qed

lemma Linear3: "shape (lin_weight l) = [o_f, i_f] \<Longrightarrow> shape x = [b, s, i_f]
   \<Longrightarrow> \<exists>y. Linear_forward l x = Inr y \<and> shape y = [b, s, o_f]"
  using returnsE [OF Linear_forward_shape [of l o_f i_f x "[b, s]"]] by simp

lemma Linear2: "shape (lin_weight l) = [o_f, i_f] \<Longrightarrow> shape x = [s, i_f]
   \<Longrightarrow> \<exists>y. Linear_forward l x = Inr y \<and> shape y = [s, o_f]"
  using returnsE [OF Linear_forward_shape [of l o_f i_f x "[s]"]] by simp

lemma cross_forward_shape:
  assumes "shape x = [b, s, C cfg]" "shape latent = [n, D cfg]"
    "0 < heads" "heads dvd D cfg"
    "case msk of None \<Rightarrow> True | Some m \<Rightarrow> shape m = [b, s]"
  shows "returns (snd (QKVAttention_cross_forward (QKVAttention_cross_init cfg heads sd name) x latent msk))
           [b, n, D cfg]"
proof -
  let ?m = "QKVAttention_cross_init cfg heads sd name"
  obtain q where q: "Linear_forward (proj_q ?m) latent = Inr q" "shape q = [n, D cfg]"
    using Linear2 [of "proj_q ?m" "D cfg" "D cfg" latent n] assms(2)
    by (auto simp: QKVAttention_cross_init_def nn_Linear_def parameter_def)
  obtain k where k: "Linear_forward (proj_k ?m) x = Inr k" "shape k = [b, s, D cfg]"
    using Linear3 [of "proj_k ?m" "D cfg" "C cfg" x b s] assms(1)
    by (auto simp: QKVAttention_cross_init_def nn_Linear_def parameter_def)
  obtain v where v: "Linear_forward (proj_v ?m) x = Inr v" "shape v = [b, s, D cfg]"
    using Linear3 [of "proj_v ?m" "D cfg" "C cfg" x b s] assms(1)
    by (auto simp: QKVAttention_cross_init_def nn_Linear_def parameter_def)
  have h: "n_heads' ?m = heads" by (simp add: QKVAttention_cross_init_def)
  obtain sc y where "attention heads q k v msk = Inr (sc, y)" "shape y = [b, n, D cfg]"
    using attention_cross_shape [OF q(2) k(2) v(2) assms(3,4,5)] by blast
  then show ?thesis
    using q k v h by (simp add: QKVAttention_cross_forward_def retain_def)
qed


lemma bidx_id: "list_all2 (<) i sh \<Longrightarrow> bidx sh i = i"
proof -
  assume a: "list_all2 (<) i sh"
  then have l: "length i = length sh" by (rule list_all2_lengthD)
  from a have "map2 (\<lambda>d k. if d = 1 then 0 else k) sh i = i"
    by (induction i sh rule: list_all2_induct) auto
  then show ?thesis using l by (simp add: bidx_def)
qed

lemma bidx3: "i < b \<Longrightarrow> j < s \<Longrightarrow> k < d \<Longrightarrow> bidx [b, s, d] [i, j, k] = [i, j, k]"
  by (rule bidx_id) simp

lemma tensor_add_same_eq:
  "shape a = sh \<Longrightarrow> shape b = sh \<Longrightarrow>
   tensor_add a b = Inr \<lparr>shape = sh, elt = (\<lambda>i. elt a (bidx sh i) + elt b (bidx sh i))\<rparr>"
  by (simp add: tensor_add_def binop_def)

lemma Linear_forward_eq:
  "shape (lin_weight l) = [o_f, i_f] \<Longrightarrow> shape x = sh @ [i_f] \<Longrightarrow>
   Linear_forward l x =
     Inr \<lparr>shape = sh @ [o_f],
          elt = (\<lambda>i. (\<Sum>j\<leftarrow>[0..<i_f]. elt x (butlast i @ [j]) * elt (lin_weight l) [last i, j])
                     + elt (lin_bias l) [last i])\<rparr>"
  by (simp add: Linear_forward_def)

section \<open>Embeddings\<close>

lemma Embeddings_forward_result:
  assumes "shape x = [b, s]" "shape sg = [b, s]"
  shows "Embeddings_forward (Embeddings_init cfg sd name) x (Some sg) = Inl IndexError
           \<or> returns (Embeddings_forward (Embeddings_init cfg sd name) x (Some sg)) [b, s, hidden cfg]"
  using assms
  by (simp add: Embeddings_forward_def Embeddings_init_def tensor_size_1 positions
      Embedding_forward2 nn_Embedding_def parameter_def in_bounds_positions
      Linear_forward_def nn_Linear_def tensor_add_def binop_def nn_LayerNorm_forward_def
      nn_LayerNorm_init_def)

text \<open>
  C8, as the code has it. For token ids and segment ids of shape \<open>[b, s]\<close>, \<open>embed\<close> fails
  if and only if some token id is outside the vocabulary table, or some segment id is
  outside the segment table, or the batch is not empty and the sequence length exceeds
  \<open>max_len\<close>. There is no check of the length itself: the positions \<open>0..s-1\<close> are looked
  up once for every row of the batch, so an empty batch looks no position up.
\<close>

theorem embed_fails_iff:
  assumes "shape x = [b, s]" and "shape sg = [b, s]"
  shows "isl (Embeddings_forward (Embeddings_init cfg sd name) x (Some sg)) \<longleftrightarrow>
           (\<exists>i<b. \<exists>j<s. elt x [i, j] < 0 \<or> int (vocab_size cfg) \<le> elt x [i, j])
         \<or> (\<exists>i<b. \<exists>j<s. elt sg [i, j] < 0 \<or> int (n_segments cfg) \<le> elt sg [i, j])
         \<or> (0 < b \<and> max_len cfg < s)"
  unfolding Embeddings_forward_eq(2) [OF assms] in_bounds_def
  by (auto simp: not_le not_less)

theorem embed_fails_iff_witness:
  "shape token_ids_example = [1, 3] \<and> shape segment_ids_example = [1, 3]
   \<and> \<not> isl (Embeddings_forward (Embeddings_init cfg_example sd_example ''embed'')
              token_ids_example (Some segment_ids_example))"
  using embed_fails_iff [of token_ids_example 1 3 segment_ids_example cfg_example sd_example "''embed''"]
  by (simp add: token_ids_example_def segment_ids_example_def cfg_example_def Config_default_def)

text \<open>C8 as it is stated fails on a batch of shape \<open>[0, 257]\<close> under the default
  configuration (\<open>max_len = 256\<close>): the sequence is too long and \<open>embed\<close> returns.\<close>

theorem embed_long_empty_batch:
  "max_len Config_default < 257 \<and> shape empty_batch = [0, 257]
   \<and> \<not> isl (Embeddings_forward (Embeddings_init Config_default sd_example ''embed'')
              empty_batch (Some empty_batch))"
  using Embeddings_forward_eq(2) [of empty_batch 0 257 empty_batch Config_default sd_example "''embed''"]
  by (simp add: empty_batch_def Config_default_def in_bounds_def)

text \<open>
  C5. For token ids and segment ids of shape \<open>[b, s]\<close> with every index in its table,
  \<open>embed\<close> returns the LayerNorm of the tensor \<open>e\<close> of shape \<open>[b, s, hidden]\<close> whose
  element \<open>[i, j, k]\<close> is the sum of three terms: the row \<open>x[i, j]\<close> of the token table
  (of width \<open>embedding\<close>) mapped by the linear layer \<open>tok_embed2\<close> to width \<open>hidden\<close>;
  the row \<open>j\<close> of the position table, the same for every \<open>i\<close>; and the row
  \<open>seg[i, j]\<close> of the segment table.
\<close>

theorem embed_sum:
  fixes cfg sd name x sg b s
  defines "E \<equiv> Embeddings_init cfg sd name"
  assumes sh: "shape x = [b, s]" "shape sg = [b, s]"
    and ok: "in_bounds x b s (vocab_size cfg)" "in_bounds sg b s (n_segments cfg)"
      "b = 0 \<or> s \<le> max_len cfg"
  shows "\<exists>e. Embeddings_forward E x (Some sg) = nn_LayerNorm_forward (norm' E) e
           \<and> returns (nn_LayerNorm_forward (norm' E) e) [b, s, hidden cfg]
           \<and> shape e = [b, s, hidden cfg]
           \<and> (\<forall>i<b. \<forall>j<s. \<forall>k<hidden cfg.
                 elt e [i, j, k] =
                   ((\<Sum>l\<leftarrow>[0..<embedding cfg].
                        elt (emb_weight (tok_embed1 E)) [nat (elt x [i, j]), l]
                        * elt (lin_weight (tok_embed2 E)) [k, l])
                     + elt (lin_bias (tok_embed2 E)) [k])
                   + elt (emb_weight (pos_embed E)) [j, k]
                   + elt (emb_weight (seg_embed E)) [nat (elt sg [i, j]), k])"
proof -
  define pos :: "int tensor" where
    "pos = \<lparr>shape = [b, s], elt = (\<lambda>i. elt (unsqueeze0 (arange s)) (bidx [1, s] i))\<rparr>"
  define e1 where "e1 = \<lparr>shape = [b, s, embedding cfg],
      elt = (\<lambda>i. elt (emb_weight (tok_embed1 E)) [nat (elt x (butlast i)), last i])\<rparr>"
  define e2 where "e2 = \<lparr>shape = [b, s, hidden cfg],
      elt = (\<lambda>i. (\<Sum>j\<leftarrow>[0..<embedding cfg]. elt e1 (butlast i @ [j]) * elt (lin_weight (tok_embed2 E)) [last i, j])
                     + elt (lin_bias (tok_embed2 E)) [last i])\<rparr>"
  define p where "p = \<lparr>shape = [b, s, hidden cfg],
      elt = (\<lambda>i. elt (emb_weight (pos_embed E)) [nat (elt pos (butlast i)), last i])\<rparr>"
  define e3 where "e3 = \<lparr>shape = [b, s, hidden cfg],
      elt = (\<lambda>i. elt e2 (bidx [b, s, hidden cfg] i) + elt p (bidx [b, s, hidden cfg] i))\<rparr>"
  define sge where "sge = \<lparr>shape = [b, s, hidden cfg],
      elt = (\<lambda>i. elt (emb_weight (seg_embed E)) [nat (elt sg (butlast i)), last i])\<rparr>"
  define e4 where "e4 = \<lparr>shape = [b, s, hidden cfg],
      elt = (\<lambda>i. elt e3 (bidx [b, s, hidden cfg] i) + elt sge (bidx [b, s, hidden cfg] i))\<rparr>"
  have w: "shape (emb_weight (tok_embed1 E)) = [vocab_size cfg, embedding cfg]"
    "shape (lin_weight (tok_embed2 E)) = [hidden cfg, embedding cfg]"
    "shape (emb_weight (pos_embed E)) = [max_len cfg, hidden cfg]"
    "shape (emb_weight (seg_embed E)) = [n_segments cfg, hidden cfg]"
    by (simp_all add: E_def Embeddings_init_def nn_Embedding_def nn_Linear_def parameter_def)
  have 1: "tensor_size x 1 = Inr s" by (rule tensor_size_1 [OF sh(1)])
  have 2: "expand_as (unsqueeze0 (arange s)) x = Inr pos"
    unfolding pos_def by (rule positions [OF sh(1)])
  have 3: "Embedding_forward (tok_embed1 E) x = Inr e1"
    using ok(1) by (simp add: Embedding_forward2 [OF w(1) sh(1)] e1_def)
  have 4: "Linear_forward (tok_embed2 E) e1 = Inr e2"
    using Linear_forward_eq [OF w(2), of e1 "[b, s]"] by (simp add: e1_def e2_def)
  have pb: "in_bounds pos b s (max_len cfg)"
    using ok(3) in_bounds_positions [of b s "max_len cfg"] by (simp add: pos_def)
  have 5: "Embedding_forward (pos_embed E) pos = Inr p"
    using pb Embedding_forward2 [OF w(3), of pos b s] by (simp add: pos_def p_def)
  have 6: "tensor_add e2 p = Inr e3"
    using tensor_add_same_eq [of e2 "[b, s, hidden cfg]" p] by (simp add: e2_def p_def e3_def)
  have 7: "Embedding_forward (seg_embed E) sg = Inr sge"
    using ok(2) by (simp add: Embedding_forward2 [OF w(4) sh(2)] sge_def)
  have 8: "tensor_add e3 sge = Inr e4"
    using tensor_add_same_eq [of e3 "[b, s, hidden cfg]" sge] by (simp add: e3_def sge_def e4_def)
  have A: "Embeddings_forward E x (Some sg) = nn_LayerNorm_forward (norm' E) e4"
    by (simp add: Embeddings_forward_def 1 2 3 4 5 6 7 8)
  have B: "shape e4 = [b, s, hidden cfg]" by (simp add: e4_def)
  have C: "elt e4 [i, j, k] =
                   ((\<Sum>l\<leftarrow>[0..<embedding cfg].
                        elt (emb_weight (tok_embed1 E)) [nat (elt x [i, j]), l]
                        * elt (lin_weight (tok_embed2 E)) [k, l])
                     + elt (lin_bias (tok_embed2 E)) [k])
                   + elt (emb_weight (pos_embed E)) [j, k]
                   + elt (emb_weight (seg_embed E)) [nat (elt sg [i, j]), k]"
    if "i < b" "j < s" "k < hidden cfg" for i j k
    using that
    by (simp add: e4_def e3_def e2_def e1_def p_def sge_def pos_def bidx3 position_elt)
  have D: "returns (nn_LayerNorm_forward (norm' E) e4) [b, s, hidden cfg]"
    using Embeddings_forward_eq(1) [OF sh, of cfg sd name] ok A by (simp add: E_def)
  show ?thesis using A B C D by blast
qed


theorem embed_sum_witness:
  "\<exists>e. Embeddings_forward (Embeddings_init cfg_example sd_example ''embed'')
           token_ids_example (Some segment_ids_example)
         = nn_LayerNorm_forward (norm' (Embeddings_init cfg_example sd_example ''embed'')) e
       \<and> shape e = [1, 3, 8]"
  using embed_sum [of token_ids_example 1 3 segment_ids_example cfg_example sd_example "''embed''"]
  by (auto simp: token_ids_example_def segment_ids_example_def cfg_example_def Config_default_def
      in_bounds_def)

section \<open>Layer normalization\<close>

lemma nn_LayerNorm_forward_spec:
  "nn_LayerNorm_forward m x = Inr y \<Longrightarrow>
     shape y = shape x \<and> elt y i = spec_layer_norm (ln_weight m) (ln_bias m) (ln_eps m) x i"
  by (auto simp: nn_LayerNorm_forward_def spec_layer_norm_def row_mean_def row_var_def Let_def
      split: list.splits if_splits)

lemma nn_LayerNorm_forward_isl:
  "isl (nn_LayerNorm_forward m x) \<longleftrightarrow> shape x = [] \<or> shape (ln_weight m) \<noteq> [last (shape x)]"
  by (auto simp: nn_LayerNorm_forward_def split: list.splits if_splits)

lemma pm_value:
  "nn_LayerNorm_forward (norm1 (Transformer_init cfg_two sd_one)) plus_minus_one = Inr y
    \<Longrightarrow> elt y [0] = 1 / sqrt (1 + 1 / 10 ^ 5) + 1"
  apply (simp add: nn_LayerNorm_forward_def Transformer_init_def nn_LayerNorm_init_def parameter_def
      cfg_two_def plus_minus_one_def sd_one_def row_mean_def row_var_def upt_rec numeral_2_eq_2)
  apply auto
  done


lemma pm_returns:
  "\<not> isl (nn_LayerNorm_forward (norm1 (Transformer_init cfg_two sd_one)) plus_minus_one)"
  by (simp add: nn_LayerNorm_forward_isl Transformer_init_def nn_LayerNorm_init_def parameter_def
      cfg_two_def plus_minus_one_def)

lemma pm_spec:
  "spec_layer_norm (ln_weight (norm1 (Transformer_init cfg_two sd_one)))
      (ln_bias (norm1 (Transformer_init cfg_two sd_one))) eps plus_minus_one [0]
    = 1 / sqrt (1 + eps) + 1"
  by (simp add: spec_layer_norm_def Transformer_init_def nn_LayerNorm_init_def parameter_def
      cfg_two_def plus_minus_one_def sd_one_def upt_rec numeral_2_eq_2)

text \<open>
  C6, as the code has it. The five layer normalizations of the pipeline (the one of
  \<open>Embeddings\<close> and \<open>norm1\<close> to \<open>norm4\<close> of \<open>Transformer\<close>) are instances of
  \<open>nn.LayerNorm\<close>, constructed without \<open>eps\<close>. A call fails only when the last
  dimension of the input is not the normalized one; otherwise the result has the shape
  of the input and every element is \<open>scale * (x - mean) / sqrt(variance + eps) + shift\<close>
  over its feature vector, with \<open>eps = 1e-05\<close>.
\<close>

theorem layer_norms:
  fixes cfg sd
  defines "T \<equiv> Transformer_init cfg sd"
  assumes "m \<in> {norm' (embed T), norm1 T, norm2 T, norm3 T, norm4 T}"
  shows "case nn_LayerNorm_forward m x of
           Inl e \<Rightarrow> shape x = [] \<or> shape (ln_weight m) \<noteq> [last (shape x)]
         | Inr y \<Rightarrow> shape y = shape x
             \<and> (\<forall>i. elt y i = spec_layer_norm (ln_weight m) (ln_bias m) (1 / 10 ^ 5) x i)"
proof -
  have e: "ln_eps m = 1 / 10 ^ 5"
    using assms(2)
    by (auto simp: T_def Transformer_init_def Embeddings_init_def nn_LayerNorm_init_def)
  show ?thesis
  proof (cases "nn_LayerNorm_forward m x")
    case (Inl a)
    then show ?thesis using nn_LayerNorm_forward_isl [of m x] by simp
  next
    case (Inr y)
    then show ?thesis using nn_LayerNorm_forward_spec [OF Inr] e by simp
  qed
qed

theorem layer_norms_witness:
  "norm1 (Transformer_init cfg_two sd_one)
     \<in> {norm' (embed (Transformer_init cfg_two sd_one)), norm1 (Transformer_init cfg_two sd_one),
        norm2 (Transformer_init cfg_two sd_one), norm3 (Transformer_init cfg_two sd_one),
        norm4 (Transformer_init cfg_two sd_one)}
   \<and> elt (projr (nn_LayerNorm_forward (norm1 (Transformer_init cfg_two sd_one)) plus_minus_one)) [0]
       = 1 / sqrt (1 + 1 / 10 ^ 5) + 1"
proof -
  let ?m = "norm1 (Transformer_init cfg_two sd_one)"
  obtain y where y: "nn_LayerNorm_forward ?m plus_minus_one = Inr y"
    using pm_returns by (cases "nn_LayerNorm_forward ?m plus_minus_one") auto
  show ?thesis
    using layer_norms [of ?m cfg_two sd_one plus_minus_one] y by (simp add: pm_spec)
qed


text \<open>C6 as it is stated (\<open>eps = 1e-12\<close>) fails for \<open>norm1\<close> at the feature vector
  \<open>[1, -1]\<close> with scale and shift 1: the result \<open>1 / sqrt(1 + 1e-05) + 1\<close> is not the
  value of the formula with \<open>1e-12\<close>.\<close>

theorem layer_norm_eps_not_1e12:
  "\<not> isl (nn_LayerNorm_forward (norm1 (Transformer_init cfg_two sd_one)) plus_minus_one)
   \<and> elt (projr (nn_LayerNorm_forward (norm1 (Transformer_init cfg_two sd_one)) plus_minus_one)) [0]
       \<noteq> spec_layer_norm (ln_weight (norm1 (Transformer_init cfg_two sd_one)))
            (ln_bias (norm1 (Transformer_init cfg_two sd_one))) (1 / 10 ^ 12) plus_minus_one [0]"
proof -
  let ?r = "nn_LayerNorm_forward (norm1 (Transformer_init cfg_two sd_one)) plus_minus_one"
  obtain y where y: "?r = Inr y" using pm_returns by (cases ?r) auto
  have "elt y [0] = 1 / sqrt (1 + 1 / 10 ^ 5) + 1" by (rule pm_value [OF y])
  moreover have "sqrt (1 + 1 / 10 ^ 5) \<noteq> sqrt (1 + 1 / 10 ^ 12)"
    by (simp only: real_sqrt_eq_iff) simp
  ultimately show ?thesis using y pm_returns by (simp add: pm_spec)
qed


section \<open>The mask of the cross-attention\<close>

lemma bidx4: "i < b \<Longrightarrow> g < h \<Longrightarrow> j < n \<Longrightarrow> l < s \<Longrightarrow> bidx [b, h, n, s] [i, g, j, l] = [i, g, j, l]"
  by (rule bidx_id) simp

lemma bidx_mask: "i < b \<Longrightarrow> l < s \<Longrightarrow> bidx [b, Suc 0, Suc 0, s] [i, g, j, l] = [i, 0, 0, l]"
  by (auto simp: bidx_def)

lemma masked_scores_elt:
  assumes "shape sc = [b, h, n, s]" "shape mk = [b, s]"
  shows "\<exists>t. masked_scores sc (Some mk) = Inr t \<and> shape t = [b, h, n, s]
           \<and> (\<forall>i<b. \<forall>g<h. \<forall>j<n. \<forall>l<s.
                 elt t [i, g, j, l] = elt sc [i, g, j, l] - 10000 * (1 - real_of_int (elt mk [i, l])))"
  using assms
  by (simp add: masked_scores_def getitem_mask_def isub_def binop_def pointwise_def float_def
      broadcast_shapes_def bidx4 bidx_mask)


text \<open>
  C4. In the cross-attention of a configuration whose heads divide \<open>D\<close>, on an input of
  shape \<open>[b, s, C]\<close> and latents of shape \<open>[n, D]\<close>: the scaled scores \<open>sc\<close> have the shape
  \<open>[b, heads, n, s]\<close>. Without a mask the retained scores are the softmax (over the
  last axis, the keys) of \<open>sc\<close> itself. With a mask of shape \<open>[b, s]\<close> they are the
  softmax of \<open>t\<close>, where \<open>t[i, g, j, l] = sc[i, g, j, l] - 10000 * (1 - mask[i, l])\<close> for
  every head \<open>g\<close> and every query position \<open>j\<close>.
\<close>

theorem cross_attention_mask:
  fixes cfg heads sd name
  defines "m \<equiv> QKVAttention_cross_init cfg heads sd name"
  assumes x: "shape x = [b, s, C cfg]" and l: "shape latent = [n, D cfg]"
    and h: "0 < heads" "heads dvd D cfg"
  shows "\<exists>sc. cross_scores m x latent = Inr sc \<and> shape sc = [b, heads, n, s]
           \<and> scores (fst (QKVAttention_cross_forward m x latent None)) = Some (softmax sc)
           \<and> (\<forall>mk. shape mk = [b, s] \<longrightarrow>
                 (\<exists>t. scores (fst (QKVAttention_cross_forward m x latent (Some mk))) = Some (softmax t)
                    \<and> shape t = [b, heads, n, s]
                    \<and> (\<forall>i<b. \<forall>g<heads. \<forall>j<n. \<forall>l<s.
                          elt t [i, g, j, l]
                            = elt sc [i, g, j, l] - 10000 * (1 - real_of_int (elt mk [i, l])))))"
proof -
  obtain q where q: "Linear_forward (proj_q m) latent = Inr q" "shape q = [n, D cfg]"
    using Linear2 [of "proj_q m" "D cfg" "D cfg" latent n] l
    by (auto simp: m_def QKVAttention_cross_init_def nn_Linear_def parameter_def)
  obtain k where k: "Linear_forward (proj_k m) x = Inr k" "shape k = [b, s, D cfg]"
    using Linear3 [of "proj_k m" "D cfg" "C cfg" x b s] x
    by (auto simp: m_def QKVAttention_cross_init_def nn_Linear_def parameter_def)
  obtain v where v: "Linear_forward (proj_v m) x = Inr v" "shape v = [b, s, D cfg]"
    using Linear3 [of "proj_v m" "D cfg" "C cfg" x b s] x
    by (auto simp: m_def QKVAttention_cross_init_def nn_Linear_def parameter_def)
  have nh: "n_heads' m = heads" by (simp add: m_def QKVAttention_cross_init_def)
  obtain q' where q': "split_heads heads q = Inr q'" "shape q' = [heads, n, D cfg div heads]"
    using returnsE [OF split_heads2 [OF q(2) h]] by blast
  obtain k' where k': "split_heads heads k = Inr k'" "shape k' = [b, heads, s, D cfg div heads]"
    using returnsE [OF split_heads3 [OF k(2) h]] by blast
  obtain v' where v': "split_heads heads v = Inr v'" "shape v' = [b, heads, s, D cfg div heads]"
    using returnsE [OF split_heads3 [OF v(2) h]] by blast
  obtain sc where sc: "scaled_scores q' k' = Inr sc" "shape sc = [b, heads, n, s]"
    using returnsE [OF scaled_scores_cross [OF q'(2) k'(2)]] by blast
  have cs: "cross_scores m x latent = Inr sc"
    by (simp add: cross_scores_def q k v nh q' k' v' sc)
  have merge: "\<exists>y. merge_heads (softmax t) v' = Inr y" if "shape t = [b, heads, n, s]" for t
  proof -
    have "shape (softmax t) = [b, heads, n, s]" using that by (simp add: softmax_def)
    then show ?thesis using returnsE [OF merge_heads_shape [OF _ v'(2)]] by blast
  qed
  have fwd: "scores (fst (QKVAttention_cross_forward m x latent msk)) = Some (softmax t)"
    if "masked_scores sc msk = Inr t" "shape t = [b, heads, n, s]" for msk t
    using merge [OF that(2)] that(1)
    by (auto simp: QKVAttention_cross_forward_def retain_def attention_def q k v nh q' k' v' sc)
  have none: "scores (fst (QKVAttention_cross_forward m x latent None)) = Some (softmax sc)"
    by (rule fwd) (simp_all add: masked_scores_None sc)
  have some: "\<exists>t. scores (fst (QKVAttention_cross_forward m x latent (Some mk))) = Some (softmax t)
                    \<and> shape t = [b, heads, n, s]
                    \<and> (\<forall>i<b. \<forall>g<heads. \<forall>j<n. \<forall>l<s.
                          elt t [i, g, j, l]
                            = elt sc [i, g, j, l] - 10000 * (1 - real_of_int (elt mk [i, l])))"
    if mk: "shape mk = [b, s]" for mk
  proof -
    obtain t where t: "masked_scores sc (Some mk) = Inr t" "shape t = [b, heads, n, s]"
      "\<forall>i<b. \<forall>g<heads. \<forall>j<n. \<forall>l<s.
          elt t [i, g, j, l] = elt sc [i, g, j, l] - 10000 * (1 - real_of_int (elt mk [i, l]))"
      using masked_scores_elt [OF sc(2) mk] by blast
    show ?thesis using fwd [OF t(1,2)] t(2,3) by blast
  qed
  show ?thesis using cs sc(2) none some by blast
qed


theorem cross_attention_mask_witness:
  "\<exists>sc t. cross_scores (QKVAttention_cross_init cfg_example 2 sd_example ''cross_attend_blocks.0'')
            embedded_example (latents (Transformer_init cfg_example sd_example)) = Inr sc
     \<and> scores (fst (QKVAttention_cross_forward
           (QKVAttention_cross_init cfg_example 2 sd_example ''cross_attend_blocks.0'')
           embedded_example (latents (Transformer_init cfg_example sd_example)) (Some mask_padded)))
         = Some (softmax t)
     \<and> elt t [0, 1, 3, 2] = elt sc [0, 1, 3, 2] - 10000
     \<and> elt t [0, 1, 3, 1] = elt sc [0, 1, 3, 1]"
proof -
  have c: "C cfg_example = 8" "D cfg_example = 8" "N cfg_example = 4"
    by (simp_all add: cfg_example_def)
  obtain sc where sc:
    "cross_scores (QKVAttention_cross_init cfg_example 2 sd_example ''cross_attend_blocks.0'')
       embedded_example (latents (Transformer_init cfg_example sd_example)) = Inr sc"
    "\<forall>mk. shape mk = [1, 3] \<longrightarrow>
       (\<exists>t. scores (fst (QKVAttention_cross_forward
                (QKVAttention_cross_init cfg_example 2 sd_example ''cross_attend_blocks.0'')
                embedded_example (latents (Transformer_init cfg_example sd_example)) (Some mk)))
              = Some (softmax t)
           \<and> shape t = [1, 2, 4, 3]
           \<and> (\<forall>i<1. \<forall>g<2. \<forall>j<4. \<forall>l<3.
                 elt t [i, g, j, l] = elt sc [i, g, j, l] - 10000 * (1 - real_of_int (elt mk [i, l]))))"
    using cross_attention_mask [of embedded_example 1 3 cfg_example
        "latents (Transformer_init cfg_example sd_example)" 4 2 sd_example "''cross_attend_blocks.0''"]
    by (auto simp: c embedded_example_def Transformer_init_def parameter_def)
  obtain t where t:
    "scores (fst (QKVAttention_cross_forward
         (QKVAttention_cross_init cfg_example 2 sd_example ''cross_attend_blocks.0'')
         embedded_example (latents (Transformer_init cfg_example sd_example)) (Some mask_padded)))
       = Some (softmax t)"
    "\<forall>i<1. \<forall>g<2. \<forall>j<4. \<forall>l<3.
       elt t [i, g, j, l] = elt sc [i, g, j, l] - 10000 * (1 - real_of_int (elt mask_padded [i, l]))"
    using sc(2) [rule_format, of mask_padded] by (auto simp: mask_padded_def)
  have "elt t [0, 1, 3, 2] = elt sc [0, 1, 3, 2] - 10000"
    using t(2) [rule_format, of 0 1 3 2] by (simp add: mask_padded_def)
  moreover have "elt t [0, 1, 3, 1] = elt sc [0, 1, 3, 1]"
    using t(2) [rule_format, of 0 1 3 1] by (simp add: mask_padded_def)
  ultimately show ?thesis using sc(1) t(1) by blast
qed

section \<open>Heads and widths\<close>

lemma split_heads_fails:
  "shape x \<noteq> [] \<Longrightarrow> h = 0 \<or> \<not> h dvd last (shape x) \<Longrightarrow> split_heads h x = Inl ShapeError"
  by (auto simp: split_heads_def split_last_def)

lemma self_forward_shape:
  assumes "shape x = [b, n, D cfg]" "0 < heads" "heads dvd D cfg"
  shows "returns (snd (QKVAttention_self_forward (QKVAttention_self_init cfg heads sd name) x None))
           [b, n, D cfg]"
proof -
  let ?m = "QKVAttention_self_init cfg heads sd name"
  obtain q where q: "Linear_forward (proj_q ?m) x = Inr q" "shape q = [b, n, D cfg]"
    using Linear3 [of "proj_q ?m" "D cfg" "D cfg" x b n] assms(1)
    by (auto simp: QKVAttention_self_init_def nn_Linear_def parameter_def)
  obtain k where k: "Linear_forward (proj_k ?m) x = Inr k" "shape k = [b, n, D cfg]"
    using Linear3 [of "proj_k ?m" "D cfg" "D cfg" x b n] assms(1)
    by (auto simp: QKVAttention_self_init_def nn_Linear_def parameter_def)
  obtain v where v: "Linear_forward (proj_v ?m) x = Inr v" "shape v = [b, n, D cfg]"
    using Linear3 [of "proj_v ?m" "D cfg" "D cfg" x b n] assms(1)
    by (auto simp: QKVAttention_self_init_def nn_Linear_def parameter_def)
  have h: "n_heads' ?m = heads" by (simp add: QKVAttention_self_init_def)
  obtain sc y where "attention heads q k v None = Inr (sc, y)" "shape y = [b, n, D cfg]"
    using attention_self_shape [OF q(2) k(2) v(2) assms(2,3)] by blast
  then show ?thesis
    using q k v h by (simp add: QKVAttention_self_forward_def retain_def)
qed

lemma cross_forward_fails:
  assumes "shape x = [b, s, C cfg]" "shape latent = [n, D cfg]" "heads = 0 \<or> \<not> heads dvd D cfg"
  shows "snd (QKVAttention_cross_forward (QKVAttention_cross_init cfg heads sd name) x latent msk)
           = Inl ShapeError"
proof -
  let ?m = "QKVAttention_cross_init cfg heads sd name"
  obtain q where q: "Linear_forward (proj_q ?m) latent = Inr q" "shape q = [n, D cfg]"
    using Linear2 [of "proj_q ?m" "D cfg" "D cfg" latent n] assms(2)
    by (auto simp: QKVAttention_cross_init_def nn_Linear_def parameter_def)
  obtain k where k: "Linear_forward (proj_k ?m) x = Inr k" "shape k = [b, s, D cfg]"
    using Linear3 [of "proj_k ?m" "D cfg" "C cfg" x b s] assms(1)
    by (auto simp: QKVAttention_cross_init_def nn_Linear_def parameter_def)
  obtain v where v: "Linear_forward (proj_v ?m) x = Inr v" "shape v = [b, s, D cfg]"
    using Linear3 [of "proj_v ?m" "D cfg" "C cfg" x b s] assms(1)
    by (auto simp: QKVAttention_cross_init_def nn_Linear_def parameter_def)
  have h: "n_heads' ?m = heads" by (simp add: QKVAttention_cross_init_def)
  have "split_heads heads q = Inl ShapeError"
    using split_heads_fails [of q heads] q(2) assms(3) by simp
  then show ?thesis
    using q k v h by (simp add: QKVAttention_cross_forward_def retain_def attention_def)
qed

lemma self_forward_fails:
  assumes "shape x = [b, n, D cfg]" "heads = 0 \<or> \<not> heads dvd D cfg"
  shows "snd (QKVAttention_self_forward (QKVAttention_self_init cfg heads sd name) x msk)
           = Inl ShapeError"
proof -
  let ?m = "QKVAttention_self_init cfg heads sd name"
  obtain q where q: "Linear_forward (proj_q ?m) x = Inr q" "shape q = [b, n, D cfg]"
    using Linear3 [of "proj_q ?m" "D cfg" "D cfg" x b n] assms(1)
    by (auto simp: QKVAttention_self_init_def nn_Linear_def parameter_def)
  obtain k where k: "Linear_forward (proj_k ?m) x = Inr k" "shape k = [b, n, D cfg]"
    using Linear3 [of "proj_k ?m" "D cfg" "D cfg" x b n] assms(1)
    by (auto simp: QKVAttention_self_init_def nn_Linear_def parameter_def)
  obtain v where v: "Linear_forward (proj_v ?m) x = Inr v" "shape v = [b, n, D cfg]"
    using Linear3 [of "proj_v ?m" "D cfg" "D cfg" x b n] assms(1)
    by (auto simp: QKVAttention_self_init_def nn_Linear_def parameter_def)
  have h: "n_heads' ?m = heads" by (simp add: QKVAttention_self_init_def)
  have "split_heads heads q = Inl ShapeError"
    using split_heads_fails [of q heads] q(2) assms(2) by simp
  then show ?thesis
    using q k v h by (simp add: QKVAttention_self_forward_def retain_def attention_def)
qed


lemma returns_or_fails:
  assumes "P \<Longrightarrow> returns r sh" "\<not> P \<Longrightarrow> r = Inl e"
  shows "(returns r sh \<longleftrightarrow> P) \<and> (isl r \<longleftrightarrow> \<not> P)"
proof (cases P)
  case True
  then show ?thesis using returnsE [OF assms(1)] assms(1) by auto
next
  case False
  then show ?thesis using assms(2) by simp
qed


text \<open>
  C7, as the code has it. Both attention classes split the projected queries, keys and
  values, and every projection has the output width \<open>D\<close> (the cross-attention's keys
  and values are projected from width \<open>C\<close> to width \<open>D\<close> first). So on an input of
  shape \<open>[b, s, C]\<close> and latents of shape \<open>[n, D]\<close> the cross-attention returns (a tensor
  of shape \<open>[b, n, D]\<close>) exactly when its head count is positive and divides \<open>D\<close>,
  and fails otherwise; each head has the width \<open>D / cross_heads\<close>. The self-attention
  on an input of shape \<open>[b, n, D]\<close> returns exactly when its head count is positive and
  divides \<open>D\<close>, each head having the width \<open>D / latent_heads\<close>.
\<close>

theorem attention_heads_divide_D:
  assumes "shape x = [b, s, C cfg]" and "shape latent = [n, D cfg]" and "shape y = [b, n, D cfg]"
    and "case msk of None \<Rightarrow> True | Some m \<Rightarrow> shape m = [b, s]"
  shows "(returns (snd (QKVAttention_cross_forward
                     (QKVAttention_cross_init cfg (cross_heads cfg) sd name) x latent msk)) [b, n, D cfg]
            \<longleftrightarrow> 0 < cross_heads cfg \<and> cross_heads cfg dvd D cfg)
       \<and> (isl (snd (QKVAttention_cross_forward
                     (QKVAttention_cross_init cfg (cross_heads cfg) sd name) x latent msk))
            \<longleftrightarrow> \<not> (0 < cross_heads cfg \<and> cross_heads cfg dvd D cfg))
       \<and> (\<forall>k. shape k = [b, s, D cfg] \<and> 0 < cross_heads cfg \<and> cross_heads cfg dvd D cfg \<longrightarrow>
             returns (split_heads (cross_heads cfg) k) [b, cross_heads cfg, s, D cfg div cross_heads cfg])
       \<and> (returns (snd (QKVAttention_self_forward
                     (QKVAttention_self_init cfg (latent_heads cfg) sd name') y None)) [b, n, D cfg]
            \<longleftrightarrow> 0 < latent_heads cfg \<and> latent_heads cfg dvd D cfg)
       \<and> (isl (snd (QKVAttention_self_forward
                     (QKVAttention_self_init cfg (latent_heads cfg) sd name') y None))
            \<longleftrightarrow> \<not> (0 < latent_heads cfg \<and> latent_heads cfg dvd D cfg))
       \<and> (\<forall>k. shape k = [b, n, D cfg] \<and> 0 < latent_heads cfg \<and> latent_heads cfg dvd D cfg \<longrightarrow>
             returns (split_heads (latent_heads cfg) k) [b, latent_heads cfg, n, D cfg div latent_heads cfg])"
proof -
  let ?rc = "snd (QKVAttention_cross_forward
                     (QKVAttention_cross_init cfg (cross_heads cfg) sd name) x latent msk)"
  let ?rs = "snd (QKVAttention_self_forward
                     (QKVAttention_self_init cfg (latent_heads cfg) sd name') y None)"
  have c: "(returns ?rc [b, n, D cfg] \<longleftrightarrow> 0 < cross_heads cfg \<and> cross_heads cfg dvd D cfg)
         \<and> (isl ?rc \<longleftrightarrow> \<not> (0 < cross_heads cfg \<and> cross_heads cfg dvd D cfg))"
  proof (rule returns_or_fails)
    assume "0 < cross_heads cfg \<and> cross_heads cfg dvd D cfg"
    then show "returns ?rc [b, n, D cfg]"
      using cross_forward_shape [OF assms(1,2) _ _ assms(4)] by blast
  next
    assume "\<not> (0 < cross_heads cfg \<and> cross_heads cfg dvd D cfg)"
    then have "cross_heads cfg = 0 \<or> \<not> cross_heads cfg dvd D cfg" by simp
    then show "?rc = Inl ShapeError" by (rule cross_forward_fails [OF assms(1,2)])
  qed
  have s: "(returns ?rs [b, n, D cfg] \<longleftrightarrow> 0 < latent_heads cfg \<and> latent_heads cfg dvd D cfg)
         \<and> (isl ?rs \<longleftrightarrow> \<not> (0 < latent_heads cfg \<and> latent_heads cfg dvd D cfg))"
  proof (rule returns_or_fails)
    assume "0 < latent_heads cfg \<and> latent_heads cfg dvd D cfg"
    then show "returns ?rs [b, n, D cfg]"
      using self_forward_shape [OF assms(3)] by blast
  next
    assume "\<not> (0 < latent_heads cfg \<and> latent_heads cfg dvd D cfg)"
    then have "latent_heads cfg = 0 \<or> \<not> latent_heads cfg dvd D cfg" by simp
    then show "?rs = Inl ShapeError" by (rule self_forward_fails [OF assms(3)])
  qed
  have w: "returns (split_heads h k) [b, h, s', d div h]"
    if "shape k = [b, s', d] \<and> 0 < h \<and> h dvd d" for h k s' d
    using that split_heads3 [of k b s' d h] by blast
  show ?thesis
    using c s w by blast
qed


theorem attention_heads_divide_D_witness:
  "returns (snd (QKVAttention_cross_forward
        (QKVAttention_cross_init cfg_example (cross_heads cfg_example) sd_example ''cross_attend_blocks.0'')
        embedded_example (latents (Transformer_init cfg_example sd_example)) (Some mask_example)))
     [1, 4, 8]
   \<and> returns (snd (QKVAttention_self_forward
        (QKVAttention_self_init cfg_example (latent_heads cfg_example) sd_example ''layers.0'')
        (zeros [1, 4, 8]) None))
     [1, 4, 8]"
proof -
  have c: "C cfg_example = 8" "D cfg_example = 8" "N cfg_example = 4"
    "cross_heads cfg_example = 2" "latent_heads cfg_example = 2"
    by (simp_all add: cfg_example_def)
  show ?thesis
    using attention_heads_divide_D [of embedded_example 1 3 cfg_example
        "latents (Transformer_init cfg_example sd_example)" 4 "zeros [1, 4, 8]" "Some mask_example"
        sd_example "''cross_attend_blocks.0''" "''layers.0''"]
    by (simp add: c embedded_example_def mask_example_def zeros_def Transformer_init_def parameter_def)
qed


text \<open>C7 as it is stated fails both ways: with \<open>C = 3\<close>, \<open>D = 4\<close> and two heads the
  cross-attention returns although 2 does not divide \<open>C\<close>, and with \<open>C = 4\<close>,
  \<open>D = 3\<close> and two heads it fails although 2 divides \<open>C\<close>.\<close>

theorem cross_attention_C_not_divisible:
  "\<not> cross_heads cfg_c3 dvd C cfg_c3
   \<and> \<not> isl (snd (QKVAttention_cross_forward
        (QKVAttention_cross_init cfg_c3 (cross_heads cfg_c3) sd_example ''cross_attend_blocks.0'')
        (zeros [1, 3, 3]) (latents (Transformer_init cfg_c3 sd_example)) None))
   \<and> cross_heads cfg_d3 dvd C cfg_d3
   \<and> isl (snd (QKVAttention_cross_forward
        (QKVAttention_cross_init cfg_d3 (cross_heads cfg_d3) sd_example ''cross_attend_blocks.0'')
        (zeros [1, 3, 4]) (latents (Transformer_init cfg_d3 sd_example)) None))"
proof -
  have c: "C cfg_c3 = 3" "D cfg_c3 = 4" "N cfg_c3 = 4" "cross_heads cfg_c3 = 2"
    "C cfg_d3 = 4" "D cfg_d3 = 3" "N cfg_d3 = 4" "cross_heads cfg_d3 = 2"
    by (simp_all add: cfg_c3_def cfg_d3_def cfg_example_def)
  have "returns (snd (QKVAttention_cross_forward
        (QKVAttention_cross_init cfg_c3 2 sd_example ''cross_attend_blocks.0'')
        (zeros [1, 3, 3]) (latents (Transformer_init cfg_c3 sd_example)) None)) [1, 4, D cfg_c3]"
    by (rule cross_forward_shape) (simp_all add: c zeros_def Transformer_init_def parameter_def)
  then have 1: "\<not> isl (snd (QKVAttention_cross_forward
        (QKVAttention_cross_init cfg_c3 2 sd_example ''cross_attend_blocks.0'')
        (zeros [1, 3, 3]) (latents (Transformer_init cfg_c3 sd_example)) None))"
    using returnsE by fastforce
  have "snd (QKVAttention_cross_forward
        (QKVAttention_cross_init cfg_d3 2 sd_example ''cross_attend_blocks.0'')
        (zeros [1, 3, 4]) (latents (Transformer_init cfg_d3 sd_example)) None) = Inl ShapeError"
    by (rule cross_forward_fails [where b = 1 and s = 3 and n = 4])
       (simp_all add: c zeros_def Transformer_init_def parameter_def)
  then show ?thesis using 1 by (simp add: c)
qed


section \<open>The forward pass\<close>

lemma retain_snd: "snd (retain m r) = map_sum id snd r"
  by (cases r) (auto simp: retain_def)

lemma retain_fst: "\<exists>s. fst (retain m r) = m\<lparr>scores := s\<rparr>"
proof (cases r)
  case (Inl e)
  have "m = m\<lparr>scores := scores m\<rparr>" by simp
  then show ?thesis using Inl by (metis retain_def sum.case(1) fst_conv)
next
  case (Inr p)
  then show ?thesis by (cases p) (auto simp: retain_def)
qed

lemma self_forward_scores:
  "snd (QKVAttention_self_forward (m\<lparr>scores := s\<rparr>) x msk) = snd (QKVAttention_self_forward m x msk)"
  by (simp add: QKVAttention_self_forward_def retain_snd)

lemma cross_forward_scores:
  "snd (QKVAttention_cross_forward (m\<lparr>scores := s\<rparr>) x l msk) = snd (QKVAttention_cross_forward m x l msk)"
  by (simp add: QKVAttention_cross_forward_def retain_snd)

lemma self_forward_fst: "\<exists>s. fst (QKVAttention_self_forward m x msk) = m\<lparr>scores := s\<rparr>"
  unfolding QKVAttention_self_forward_def by (rule retain_fst)

lemma cross_forward_fst: "\<exists>s. fst (QKVAttention_cross_forward m x l msk) = m\<lparr>scores := s\<rparr>"
  unfolding QKVAttention_cross_forward_def by (rule retain_fst)

lemma self_round_scores:
  "self_round (a\<lparr>scores := s\<rparr>, f) n3 n4 = self_round (a, f) n3 n4"
  by (rule ext) (simp add: self_round_def self_forward_scores)

lemma loop_body_snd: "snd (loop_body T x) = self_round (layers T) (norm3 T) (norm4 T) x"
  by (simp add: loop_body_def self_round_def split: prod.splits)

lemma loop_body_fst:
  "\<exists>s. fst (loop_body T x) = T\<lparr>layers := ((fst (layers T))\<lparr>scores := s\<rparr>, snd (layers T))\<rparr>"
proof -
  obtain s where "fst (QKVAttention_self_forward (fst (layers T)) x None) = (fst (layers T))\<lparr>scores := s\<rparr>"
    using self_forward_fst by blast
  then show ?thesis
    by (auto simp: loop_body_def split: prod.splits)
qed


lemma loop_snd:
  "snd (loop n T x) = iterate n (self_round (layers T) (norm3 T) (norm4 T)) x"
proof (induction n arbitrary: T x)
  case 0
  show ?case by simp
next
  case (Suc n)
  obtain T' r where b: "loop_body T x = (T', r)" by (cases "loop_body T x")
  obtain s where T': "T' = T\<lparr>layers := ((fst (layers T))\<lparr>scores := s\<rparr>, snd (layers T))\<rparr>"
    using loop_body_fst [of T x] b by auto
  have r: "r = self_round (layers T) (norm3 T) (norm4 T) x"
    using loop_body_snd [of T x] b by simp
  have same: "self_round (layers T') (norm3 T') (norm4 T') = self_round (layers T) (norm3 T) (norm4 T)"
    using self_round_scores [where a = "fst (layers T)" and s = s and f = "snd (layers T)"]
    by (simp add: T')
  show ?case
  proof (cases r)
    case (Inl e)
    then show ?thesis using b r by simp
  next
    case (Inr y)
    then show ?thesis using b r Suc.IH [of T' y] same by simp
  qed
qed

lemma loop_fst:
  "\<exists>s. fst (loop n T x) = T\<lparr>layers := ((fst (layers T))\<lparr>scores := s\<rparr>, snd (layers T))\<rparr>"
proof (induction n arbitrary: T x)
  case 0
  have "T = T\<lparr>layers := ((fst (layers T))\<lparr>scores := scores (fst (layers T))\<rparr>, snd (layers T))\<rparr>"
    by simp
  then show ?case by (metis loop.simps(1) fst_conv)
next
  case (Suc n)
  obtain T' r where b: "loop_body T x = (T', r)" by (cases "loop_body T x")
  obtain s where T': "T' = T\<lparr>layers := ((fst (layers T))\<lparr>scores := s\<rparr>, snd (layers T))\<rparr>"
    using loop_body_fst [of T x] b by auto
  show ?case
  proof (cases r)
    case (Inl e)
    then show ?thesis using b T' by auto
  next
    case (Inr y)
    obtain s' where "fst (loop n T' y) = T'\<lparr>layers := ((fst (layers T'))\<lparr>scores := s'\<rparr>, snd (layers T'))\<rparr>"
      using Suc.IH [of T' y] by blast
    then have "fst (loop (Suc n) T x) = T\<lparr>layers := ((fst (layers T))\<lparr>scores := s'\<rparr>, snd (layers T))\<rparr>"
      using b Inr by (simp add: T')
    then show ?thesis by blast
  qed
qed

lemma forward_value:
  "snd (Transformer_forward g T token_ids segment_ids attention_mask) =
     rbind (cross_block T token_ids segment_ids attention_mask) (\<lambda>x.
       case g of None \<Rightarrow> Inl NameError
       | Some cfg \<Rightarrow> iterate (process_layers cfg) (self_round (layers T) (norm3 T) (norm4 T)) x)"
  by (auto simp: Transformer_forward_def cross_block_def loop_snd Let_def
      split: sum.splits prod.splits option.splits)


lemma with_scores_same: "with_scores (scores (fst (cross_attend_blocks T))) (scores (fst (layers T))) T = T"
  by (simp add: with_scores_def)

lemma cross_block_scores:
  "cross_block (with_scores s1 s2 T) token_ids segment_ids attention_mask
     = cross_block T token_ids segment_ids attention_mask"
  by (simp add: cross_block_def with_scores_def cross_forward_scores)

lemma forward_value_scores:
  "snd (Transformer_forward g (with_scores s1 s2 T) token_ids segment_ids attention_mask)
     = snd (Transformer_forward g T token_ids segment_ids attention_mask)"
proof -
  have "self_round (layers (with_scores s1 s2 T)) (norm3 (with_scores s1 s2 T)) (norm4 (with_scores s1 s2 T))
          = self_round (layers T) (norm3 T) (norm4 T)"
    using self_round_scores [where a = "fst (layers T)" and s = s2 and f = "snd (layers T)"]
    by (simp add: with_scores_def)
  then show ?thesis
    unfolding forward_value cross_block_scores by (simp only:)
qed

lemma forward_state:
  "\<exists>s1 s2. fst (Transformer_forward g T token_ids segment_ids attention_mask) = with_scores s1 s2 T"
proof (cases "Embeddings_forward (embed T) token_ids segment_ids")
  case (Inl e)
  then have "fst (Transformer_forward g T token_ids segment_ids attention_mask) = T"
    by (simp add: Transformer_forward_def)
  then show ?thesis using with_scores_same [of T] by metis
next
  case (Inr h)
  let ?ca = "fst (cross_attend_blocks T)"
  obtain s1 where s1: "fst (QKVAttention_cross_forward ?ca h (latents T) attention_mask) = ?ca\<lparr>scores := s1\<rparr>"
    using cross_forward_fst by blast
  define T' where "T' = T\<lparr>cross_attend_blocks := (?ca\<lparr>scores := s1\<rparr>, snd (cross_attend_blocks T))\<rparr>"
  have a: "T' = with_scores s1 (scores (fst (layers T))) T"
    by (simp add: T'_def with_scores_def)
  have b: "\<exists>s2. fst (loop n T' x) = with_scores s1 s2 T" for n x
  proof -
    obtain s2 where "fst (loop n T' x) = T'\<lparr>layers := ((fst (layers T'))\<lparr>scores := s2\<rparr>, snd (layers T'))\<rparr>"
      using loop_fst by blast
    then have "fst (loop n T' x) = with_scores s1 s2 T"
      by (simp add: T'_def with_scores_def)
    then show ?thesis by blast
  qed
  obtain a' where a': "QKVAttention_cross_forward ?ca h (latents T) attention_mask = (?ca\<lparr>scores := s1\<rparr>, a')"
    using s1 by (cases "QKVAttention_cross_forward ?ca h (latents T) attention_mask") auto
  define r where "r = rbind (add_norm (norm1 T) a' (latents T)) (\<lambda>x.
                   add_norm (norm2 T) (FeedForward_forward (snd (cross_attend_blocks T)) x) x)"
  have f1: "fst (Transformer_forward g T token_ids segment_ids attention_mask) = T'" if "r = Inl e" for e
    using Inr a' that by (simp add: Transformer_forward_def case_prod_beta Let_def T'_def r_def)
  have f2: "fst (Transformer_forward g T token_ids segment_ids attention_mask) = T'"
    if "r = Inr x" "g = None" for x
    using Inr a' that by (simp add: Transformer_forward_def case_prod_beta Let_def T'_def r_def)
  have f3: "fst (Transformer_forward g T token_ids segment_ids attention_mask)
              = fst (loop (process_layers cfg) T' x)"
    if "r = Inr x" "g = Some cfg" for x cfg
    using Inr a' that by (simp add: Transformer_forward_def case_prod_beta Let_def T'_def r_def)
  have "fst (Transformer_forward g T token_ids segment_ids attention_mask) = T'
      \<or> (\<exists>n x. fst (Transformer_forward g T token_ids segment_ids attention_mask) = fst (loop n T' x))"
  proof (cases r)
    case (Inl e)
    then show ?thesis using f1 by simp
  next
    case rx: (Inr x)
    show ?thesis
    proof (cases g)
      case None
      then show ?thesis using f2 rx by simp
    next
      case (Some cfg)
      then show ?thesis using f3 [OF rx Some] by blast
    qed
  qed
  then show ?thesis using a b by metis
qed


lemma rbind_eq_Inr: "rbind m f = Inr y \<longleftrightarrow> (\<exists>x. m = Inr x \<and> f x = Inr y)"
  by (cases m) simp_all

lemma isl_rbind: "isl (rbind m f) \<longleftrightarrow> isl m \<or> (\<exists>x. m = Inr x \<and> isl (f x))"
  by (cases m) simp_all

lemma gelu_shape [simp]: "shape (gelu x) = shape x"
  by (simp add: gelu_def pointwise_def)

lemma FeedForward_shape:
  assumes "shape x = [b, n, D cfg]"
  shows "returns (FeedForward_forward (FeedForward_init cfg sd name) x) [b, n, D cfg]"
proof -
  let ?m = "FeedForward_init cfg sd name"
  obtain y where y: "Linear_forward (fc1 ?m) x = Inr y" "shape y = [b, n, ffw cfg]"
    using Linear3 [of "fc1 ?m" "ffw cfg" "D cfg" x b n] assms
    by (auto simp: FeedForward_init_def nn_Linear_def parameter_def)
  obtain z where z: "Linear_forward (fc2 ?m) (gelu y) = Inr z" "shape z = [b, n, D cfg]"
    using Linear3 [of "fc2 ?m" "D cfg" "ffw cfg" "gelu y" b n] y(2)
    by (auto simp: FeedForward_init_def nn_Linear_def parameter_def)
  show ?thesis by (simp add: FeedForward_forward_def y z)
qed

lemma add_norm_shape:
  assumes "returns sub ([b] @ [n, d])" "shape x = [b, n, d] \<or> shape x = [n, d]"
  shows "returns (add_norm (nn_LayerNorm_init d sd name) sub x) [b, n, d]"
proof -
  obtain y where y: "sub = Inr y" "shape y = [b] @ [n, d]"
    using returnsE [OF assms(1)] by blast
  have "returns (tensor_add y x) ([b] @ [n, d])"
    using assms(2)
  proof
    assume "shape x = [b, n, d]"
    then show ?thesis using tensor_add_same [of y "[b] @ [n, d]" x] y(2) by simp
  next
    assume "shape x = [n, d]"
    then show ?thesis using tensor_add_suffix [OF y(2)] by simp
  qed
  then obtain z where z: "tensor_add y x = Inr z" "shape z = [b, n] @ [d]"
    using returnsE by fastforce
  have "returns (nn_LayerNorm_forward (nn_LayerNorm_init d sd name) z) ([b, n] @ [d])"
    by (rule nn_LayerNorm_forward_shape [OF _ z(2)]) (simp add: nn_LayerNorm_init_def parameter_def)
  then show ?thesis by (simp add: add_norm_def y z)
qed

lemma add_norm_Inl [simp]: "add_norm nm (Inl e) x = Inl e"
  by (simp add: add_norm_def)

lemma self_round_shape:
  fixes cfg sd
  defines "T \<equiv> Transformer_init cfg sd"
  assumes x: "shape x = [b, n, D cfg]"
  shows "0 < latent_heads cfg \<and> latent_heads cfg dvd D cfg
           \<Longrightarrow> returns (self_round (layers T) (norm3 T) (norm4 T) x) [b, n, D cfg]"
    and "\<not> (0 < latent_heads cfg \<and> latent_heads cfg dvd D cfg)
           \<Longrightarrow> self_round (layers T) (norm3 T) (norm4 T) x = Inl ShapeError"
proof -
  have l: "fst (layers T) = QKVAttention_self_init cfg (latent_heads cfg) sd ''layers.0''"
    "snd (layers T) = FeedForward_init cfg sd ''layers.1''"
    "norm3 T = nn_LayerNorm_init (D cfg) sd ''norm3''"
    "norm4 T = nn_LayerNorm_init (D cfg) sd ''norm4''"
    by (simp_all add: T_def Transformer_init_def)
  {
    assume ok: "0 < latent_heads cfg \<and> latent_heads cfg dvd D cfg"
    have "returns (snd (QKVAttention_self_forward (fst (layers T)) x None)) ([b] @ [n, D cfg])"
      using self_forward_shape [OF x, of "latent_heads cfg" sd "''layers.0''"] ok by (simp add: l)
    then have "returns (add_norm (norm3 T) (snd (QKVAttention_self_forward (fst (layers T)) x None)) x)
                 [b, n, D cfg]"
      unfolding l by (rule add_norm_shape) (simp add: x)
    then obtain y where y: "add_norm (norm3 T) (snd (QKVAttention_self_forward (fst (layers T)) x None)) x = Inr y"
      "shape y = [b, n, D cfg]"
      using returnsE by blast
    have "returns (FeedForward_forward (snd (layers T)) y) ([b] @ [n, D cfg])"
      using FeedForward_shape [OF y(2), of sd "''layers.1''"] by (simp add: l)
    then have "returns (add_norm (norm4 T) (FeedForward_forward (snd (layers T)) y) y) [b, n, D cfg]"
      unfolding l by (rule add_norm_shape) (simp add: y)
    then show "returns (self_round (layers T) (norm3 T) (norm4 T) x) [b, n, D cfg]"
      by (simp add: self_round_def y)
  }
  {
    assume "\<not> (0 < latent_heads cfg \<and> latent_heads cfg dvd D cfg)"
    then have "latent_heads cfg = 0 \<or> \<not> latent_heads cfg dvd D cfg" by simp
    then have "snd (QKVAttention_self_forward (fst (layers T)) x None) = Inl ShapeError"
      unfolding l by (rule self_forward_fails [OF x])
    then show "self_round (layers T) (norm3 T) (norm4 T) x = Inl ShapeError"
      by (simp add: self_round_def)
  }
qed

lemma iterate_shape:
  assumes "\<And>x. shape x = sh \<Longrightarrow> returns (f x) sh" "shape x = sh"
  shows "returns (iterate n f x) sh"
  using assms(2)
proof (induction n arbitrary: x)
  case 0
  then show ?case by simp
next
  case (Suc n)
  obtain y where "f x = Inr y" "shape y = sh"
    using returnsE [OF assms(1) [OF Suc.prems]] by blast
  then show ?case using Suc.IH [of y] by simp
qed

lemma iterate_fails: "f x = Inl e \<Longrightarrow> 0 < n \<Longrightarrow> iterate n f x = Inl e"
  by (cases n) simp_all


lemma nn_LayerNorm_forward_Inr:
  "nn_LayerNorm_forward m x = Inr y \<Longrightarrow> shape y = shape x \<and> shape x \<noteq> [] \<and> shape (ln_weight m) = [last (shape x)]"
  by (auto simp: nn_LayerNorm_forward_def split: list.splits if_splits)

lemma Embeddings_forward_width:
  assumes "Embeddings_forward (Embeddings_init cfg sd name) x seg = Inr h"
  shows "shape h \<noteq> [] \<and> last (shape h) = hidden cfg"
proof -
  obtain e where "nn_LayerNorm_forward (norm' (Embeddings_init cfg sd name)) e = Inr h"
    using assms by (auto simp: Embeddings_forward_def rbind_eq_Inr)
  from nn_LayerNorm_forward_Inr [OF this] show ?thesis
    by (simp add: Embeddings_init_def nn_LayerNorm_init_def parameter_def)
qed

lemma Linear_forward_width:
  "shape (lin_weight l) = [o_f, i_f] \<Longrightarrow> shape x = [] \<or> last (shape x) \<noteq> i_f
     \<Longrightarrow> Linear_forward l x = Inl ShapeError"
  by (auto simp: Linear_forward_def)

lemma cross_forward_width:
  assumes "shape x = [] \<or> last (shape x) \<noteq> C cfg"
  shows "isl (snd (QKVAttention_cross_forward (QKVAttention_cross_init cfg heads sd name) x latent msk))"
proof -
  let ?m = "QKVAttention_cross_init cfg heads sd name"
  have "Linear_forward (proj_k ?m) x = Inl ShapeError"
    by (rule Linear_forward_width [OF _ assms])
       (simp add: QKVAttention_cross_init_def nn_Linear_def parameter_def)
  then show ?thesis
    by (cases "Linear_forward (proj_q ?m) latent")
       (simp_all add: QKVAttention_cross_forward_def retain_snd isl_map_sum)
qed

lemma isl_add_norm: "isl sub \<Longrightarrow> isl (add_norm nm sub x)"
  by (cases sub) simp_all

lemma cross_block_width:
  assumes "hidden cfg \<noteq> C cfg"
  shows "isl (cross_block (Transformer_init cfg sd) token_ids segment_ids attention_mask)"
proof (cases "Embeddings_forward (embed (Transformer_init cfg sd)) token_ids segment_ids")
  case (Inl e)
  then show ?thesis by (simp add: cross_block_def)
next
  case (Inr h)
  then have "shape h = [] \<or> last (shape h) \<noteq> C cfg"
    using Embeddings_forward_width [of cfg sd "''embed''" token_ids segment_ids h] assms
    by (simp add: Transformer_init_def)
  then have "isl (snd (QKVAttention_cross_forward (fst (cross_attend_blocks (Transformer_init cfg sd))) h
                    (latents (Transformer_init cfg sd)) attention_mask))"
    using cross_forward_width [of h cfg "cross_heads cfg" sd "''cross_attend_blocks.0''"]
    by (simp add: Transformer_init_def)
  then show ?thesis
    using Inr by (simp add: cross_block_def isl_rbind isl_add_norm)
qed

lemma cross_block_shape:
  fixes cfg sd
  defines "T \<equiv> Transformer_init cfg sd"
  assumes sh: "shape token_ids = [b, s]" "shape segment_ids = [b, s]"
    "case attention_mask of None \<Rightarrow> True | Some m \<Rightarrow> shape m = [b, s]"
  shows "in_bounds token_ids b s (vocab_size cfg) \<and> in_bounds segment_ids b s (n_segments cfg)
           \<and> (b = 0 \<or> s \<le> max_len cfg) \<and> hidden cfg = C cfg
           \<and> 0 < cross_heads cfg \<and> cross_heads cfg dvd D cfg
         \<Longrightarrow> returns (cross_block T token_ids (Some segment_ids) attention_mask) [b, N cfg, D cfg]"
    and "\<not> (in_bounds token_ids b s (vocab_size cfg) \<and> in_bounds segment_ids b s (n_segments cfg)
           \<and> (b = 0 \<or> s \<le> max_len cfg) \<and> hidden cfg = C cfg
           \<and> 0 < cross_heads cfg \<and> cross_heads cfg dvd D cfg)
         \<Longrightarrow> isl (cross_block T token_ids (Some segment_ids) attention_mask)"
proof -
  have l: "embed T = Embeddings_init cfg sd ''embed''"
    "fst (cross_attend_blocks T) = QKVAttention_cross_init cfg (cross_heads cfg) sd ''cross_attend_blocks.0''"
    "snd (cross_attend_blocks T) = FeedForward_init cfg sd ''cross_attend_blocks.1''"
    "norm1 T = nn_LayerNorm_init (D cfg) sd ''norm1''"
    "norm2 T = nn_LayerNorm_init (D cfg) sd ''norm2''"
    "shape (latents T) = [N cfg, D cfg]"
    by (simp_all add: T_def Transformer_init_def parameter_def)
  {
    assume ok: "in_bounds token_ids b s (vocab_size cfg) \<and> in_bounds segment_ids b s (n_segments cfg)
           \<and> (b = 0 \<or> s \<le> max_len cfg) \<and> hidden cfg = C cfg
           \<and> 0 < cross_heads cfg \<and> cross_heads cfg dvd D cfg"
    then have "returns (Embeddings_forward (embed T) token_ids (Some segment_ids)) [b, s, C cfg]"
      using Embeddings_forward_eq(1) [OF sh(1,2), of cfg sd "''embed''"] by (simp add: l)
    then obtain h where h: "Embeddings_forward (embed T) token_ids (Some segment_ids) = Inr h"
      "shape h = [b, s, C cfg]"
      using returnsE by blast
    have "returns (snd (QKVAttention_cross_forward (fst (cross_attend_blocks T)) h (latents T) attention_mask))
            ([b] @ [N cfg, D cfg])"
      using cross_forward_shape [OF h(2) l(6) _ _ sh(3), of "cross_heads cfg" sd "''cross_attend_blocks.0''"] ok
      by (simp add: l)
    then have "returns (add_norm (norm1 T)
                 (snd (QKVAttention_cross_forward (fst (cross_attend_blocks T)) h (latents T) attention_mask))
                 (latents T)) [b, N cfg, D cfg]"
      unfolding l(4) by (rule add_norm_shape) (simp add: l)
    then obtain x where x: "add_norm (norm1 T)
                 (snd (QKVAttention_cross_forward (fst (cross_attend_blocks T)) h (latents T) attention_mask))
                 (latents T) = Inr x" "shape x = [b, N cfg, D cfg]"
      using returnsE by blast
    have "returns (FeedForward_forward (snd (cross_attend_blocks T)) x) ([b] @ [N cfg, D cfg])"
      using FeedForward_shape [OF x(2), of sd "''cross_attend_blocks.1''"] by (simp add: l)
    then have "returns (add_norm (norm2 T) (FeedForward_forward (snd (cross_attend_blocks T)) x) x)
                 [b, N cfg, D cfg]"
      unfolding l(5) by (rule add_norm_shape) (simp add: x)
    then show "returns (cross_block T token_ids (Some segment_ids) attention_mask) [b, N cfg, D cfg]"
      by (simp add: cross_block_def h x)
  }
  {
    assume no: "\<not> (in_bounds token_ids b s (vocab_size cfg) \<and> in_bounds segment_ids b s (n_segments cfg)
           \<and> (b = 0 \<or> s \<le> max_len cfg) \<and> hidden cfg = C cfg
           \<and> 0 < cross_heads cfg \<and> cross_heads cfg dvd D cfg)"
    show "isl (cross_block T token_ids (Some segment_ids) attention_mask)"
    proof (cases "in_bounds token_ids b s (vocab_size cfg) \<and> in_bounds segment_ids b s (n_segments cfg)
           \<and> (b = 0 \<or> s \<le> max_len cfg)")
      case False
      then have "isl (Embeddings_forward (embed T) token_ids (Some segment_ids))"
        using Embeddings_forward_eq(2) [OF sh(1,2), of cfg sd "''embed''"] by (simp add: l)
      then show ?thesis by (simp add: cross_block_def isl_rbind)
    next
      case emb: True
      show ?thesis
      proof (cases "hidden cfg = C cfg")
        case False
        then show ?thesis unfolding T_def by (rule cross_block_width)
      next
        case True
        then have "returns (Embeddings_forward (embed T) token_ids (Some segment_ids)) [b, s, C cfg]"
          using emb Embeddings_forward_eq(1) [OF sh(1,2), of cfg sd "''embed''"] by (simp add: l)
        then obtain h where h: "Embeddings_forward (embed T) token_ids (Some segment_ids) = Inr h"
          "shape h = [b, s, C cfg]"
          using returnsE by blast
        have "cross_heads cfg = 0 \<or> \<not> cross_heads cfg dvd D cfg"
          using no emb True by auto
        then have "snd (QKVAttention_cross_forward (fst (cross_attend_blocks T)) h (latents T) attention_mask)
                     = Inl ShapeError"
          unfolding l(2) by (rule cross_forward_fails [OF h(2) l(6)])
        then show ?thesis by (simp add: cross_block_def h)
      qed
    qed
  }
qed


lemma rounds_shape:
  fixes cfg sd
  defines "T \<equiv> Transformer_init cfg sd"
  assumes x: "shape x = [b, n, D cfg]"
  shows "k = 0 \<or> (0 < latent_heads cfg \<and> latent_heads cfg dvd D cfg)
           \<Longrightarrow> returns (iterate k (self_round (layers T) (norm3 T) (norm4 T)) x) [b, n, D cfg]"
    and "\<not> (k = 0 \<or> (0 < latent_heads cfg \<and> latent_heads cfg dvd D cfg))
           \<Longrightarrow> isl (iterate k (self_round (layers T) (norm3 T) (norm4 T)) x)"
proof -
  {
    assume a: "k = 0 \<or> (0 < latent_heads cfg \<and> latent_heads cfg dvd D cfg)"
    show "returns (iterate k (self_round (layers T) (norm3 T) (norm4 T)) x) [b, n, D cfg]"
    proof (cases "k = 0")
      case True
      then show ?thesis using x by simp
    next
      case False
      then have ok: "0 < latent_heads cfg \<and> latent_heads cfg dvd D cfg" using a by simp
      show ?thesis
      proof (rule iterate_shape [OF _ x])
        fix y :: "real tensor"
        assume "shape y = [b, n, D cfg]"
        then show "returns (self_round (layers T) (norm3 T) (norm4 T) y) [b, n, D cfg]"
          unfolding T_def using ok by (rule self_round_shape(1))
      qed
    qed
  }
  {
    assume "\<not> (k = 0 \<or> (0 < latent_heads cfg \<and> latent_heads cfg dvd D cfg))"
    then have k: "0 < k" and no: "\<not> (0 < latent_heads cfg \<and> latent_heads cfg dvd D cfg)"
      by simp_all
    have e: "self_round (layers T) (norm3 T) (norm4 T) x = Inl ShapeError"
      unfolding T_def using x no by (rule self_round_shape(2))
    show "isl (iterate k (self_round (layers T) (norm3 T) (norm4 T)) x)"
      using e k iterate_fails [where f = "self_round (layers T) (norm3 T) (norm4 T)" and x = x
          and e = ShapeError and n = k]
      by simp
  }
qed

lemma isl_rbindI: "isl m \<Longrightarrow> isl (rbind m f)"
  by (cases m) simp_all

lemma returns_iff: "returns r sh \<Longrightarrow> P \<Longrightarrow> (returns r sh \<longleftrightarrow> P) \<and> (isl r \<longleftrightarrow> \<not> P)"
  by (cases r) simp_all

lemma fails_iff: "isl r \<Longrightarrow> \<not> P \<Longrightarrow> (returns r sh \<longleftrightarrow> P) \<and> (isl r \<longleftrightarrow> \<not> P)"
  by (cases r) simp_all

lemma forward_shape_iff:
  fixes cfg sd
  defines "T \<equiv> Transformer_init cfg sd"
  assumes sh: "shape token_ids = [b, s]" "shape segment_ids = [b, s]"
    "case attention_mask of None \<Rightarrow> True | Some m \<Rightarrow> shape m = [b, s]"
  shows "(returns (snd (Transformer_forward g T token_ids (Some segment_ids) attention_mask)) [b, N cfg, D cfg]
            \<longleftrightarrow> forward_defined g cfg token_ids segment_ids b s)
       \<and> (isl (snd (Transformer_forward g T token_ids (Some segment_ids) attention_mask))
            \<longleftrightarrow> \<not> forward_defined g cfg token_ids segment_ids b s)"
proof -
  let ?P = "in_bounds token_ids b s (vocab_size cfg) \<and> in_bounds segment_ids b s (n_segments cfg)
           \<and> (b = 0 \<or> s \<le> max_len cfg) \<and> hidden cfg = C cfg
           \<and> 0 < cross_heads cfg \<and> cross_heads cfg dvd D cfg"
  let ?r = "snd (Transformer_forward g T token_ids (Some segment_ids) attention_mask)"
  let ?f = "self_round (layers T) (norm3 T) (norm4 T)"
  show ?thesis
  proof (cases ?P)
    case False
    have "isl (cross_block T token_ids (Some segment_ids) attention_mask)"
      unfolding T_def by (rule cross_block_shape(2) [OF sh False])
    then have 1: "isl ?r" unfolding forward_value by (rule isl_rbindI)
    have 2: "\<not> forward_defined g cfg token_ids segment_ids b s"
      using False unfolding forward_defined_def by blast
    show ?thesis by (rule fails_iff [OF 1 2])
  next
    case True
    have "returns (cross_block T token_ids (Some segment_ids) attention_mask) [b, N cfg, D cfg]"
      unfolding T_def by (rule cross_block_shape(1) [OF sh True])
    then obtain x where x: "cross_block T token_ids (Some segment_ids) attention_mask = Inr x"
      "shape x = [b, N cfg, D cfg]"
      using returnsE by blast
    show ?thesis
    proof (cases g)
      case None
      have 1: "isl ?r" by (simp add: forward_value x None)
      have 2: "\<not> forward_defined g cfg token_ids segment_ids b s"
        by (simp add: forward_defined_def None)
      show ?thesis by (rule fails_iff [OF 1 2])
    next
      case (Some c)
      have r: "?r = iterate (process_layers c) ?f x"
        by (simp add: forward_value x Some)
      show ?thesis
      proof (cases "process_layers c = 0 \<or> (0 < latent_heads cfg \<and> latent_heads cfg dvd D cfg)")
        case ok: True
        have "returns (iterate (process_layers c) ?f x) [b, N cfg, D cfg]"
          unfolding T_def by (rule rounds_shape(1) [OF x(2) ok])
        then have 1: "returns ?r [b, N cfg, D cfg]" by (simp only: r)
        have 2: "forward_defined g cfg token_ids segment_ids b s"
          unfolding forward_defined_def using True ok by (simp add: Some)
        show ?thesis by (rule returns_iff [OF 1 2])
      next
        case no: False
        have "isl (iterate (process_layers c) ?f x)"
          unfolding T_def by (rule rounds_shape(2) [OF x(2) no])
        then have 1: "isl ?r" by (simp only: r)
        have 2: "\<not> forward_defined g cfg token_ids segment_ids b s"
          unfolding forward_defined_def using no by (simp add: Some)
        show ?thesis by (rule fails_iff [OF 1 2])
      qed
    qed
  qed
qed

text \<open>
  What the code does with the shape. For token ids and segment ids of shape \<open>[b, s]\<close>
  and a mask that is absent or of shape \<open>[b, s]\<close>: whenever \<open>forward\<close> returns a
  tensor, its shape is exactly \<open>[b, N, D]\<close>, whatever the sequence length \<open>s\<close>; and it
  returns one exactly on the inputs and configurations of \<open>forward_defined\<close>, which
  needs the name \<open>cfg\<close> to be bound where \<open>forward\<close> runs.
\<close>

lemma forward_shape:
  fixes cfg sd
  defines "T \<equiv> Transformer_init cfg sd"
  assumes "shape token_ids = [b, s]" and "shape segment_ids = [b, s]"
    and "case attention_mask of None \<Rightarrow> True | Some m \<Rightarrow> shape m = [b, s]"
  shows "(\<forall>y. snd (Transformer_forward g T token_ids (Some segment_ids) attention_mask) = Inr y
             \<longrightarrow> shape y = [b, N cfg, D cfg])
       \<and> (returns (snd (Transformer_forward g T token_ids (Some segment_ids) attention_mask))
            [b, N cfg, D cfg]
            \<longleftrightarrow> forward_defined g cfg token_ids segment_ids b s)"
proof -
  let ?r = "snd (Transformer_forward g T token_ids (Some segment_ids) attention_mask)"
  have i: "(returns ?r [b, N cfg, D cfg] \<longleftrightarrow> forward_defined g cfg token_ids segment_ids b s)
       \<and> (isl ?r \<longleftrightarrow> \<not> forward_defined g cfg token_ids segment_ids b s)"
    unfolding T_def by (rule forward_shape_iff [OF assms(2,3,4)])
  have "shape y = [b, N cfg, D cfg]" if "?r = Inr y" for y
  proof -
    have "\<not> isl ?r" using that by simp
    then have "returns ?r [b, N cfg, D cfg]" using i by blast
    then show ?thesis using that by simp
  qed
  then show ?thesis using i by blast
qed

lemma forward_shape_example:
  "forward_defined (Some cfg_example) cfg_example token_ids_example segment_ids_example 1 3
   \<and> returns (snd (Transformer_forward (Some cfg_example) (Transformer_init cfg_example sd_example)
        token_ids_example (Some segment_ids_example) (Some mask_example))) [1, 4, 8]"
proof -
  have d: "forward_defined (Some cfg_example) cfg_example token_ids_example segment_ids_example 1 3"
    by (simp add: forward_defined_def in_bounds_def cfg_example_def Config_default_def
        token_ids_example_def segment_ids_example_def)
  have c: "N cfg_example = 4" "D cfg_example = 8" by (simp_all add: cfg_example_def)
  show ?thesis
    using d forward_shape [of token_ids_example 1 3 segment_ids_example "Some mask_example"
        "Some cfg_example" cfg_example sd_example]
    by (simp add: c token_ids_example_def segment_ids_example_def mask_example_def)
qed


subsection \<open>The bound of the loop\<close>

lemma example_cross_block:
  "returns (cross_block (Transformer_init cfg_example sd_example) token_ids_example
      (Some segment_ids_example) (Some mask_example)) [1, N cfg_example, D cfg_example]"
  by (rule cross_block_shape(1))
     (auto simp: token_ids_example_def segment_ids_example_def mask_example_def
        in_bounds_def cfg_example_def Config_default_def)

lemma example_defined:
  "forward_defined (Some cfg_example) cfg_example token_ids_example segment_ids_example 1 3"
  by (simp add: forward_defined_def in_bounds_def cfg_example_def Config_default_def
      token_ids_example_def segment_ids_example_def)

lemma forward_unbound:
  "isl (snd (Transformer_forward None T token_ids segment_ids attention_mask))"
  by (cases "cross_block T token_ids segment_ids attention_mask") (simp_all add: forward_value)

text \<open>
  C1 on the code. \<open>models.py\<close> binds no name \<open>cfg\<close>, and with \<open>cfg\<close> unbound
  \<open>forward\<close> returns no tensor on any input: the spec's end-to-end scenario, valid in
  every other respect, raises \<open>NameError\<close> where the loop reads \<open>cfg.process_layers\<close>.
\<close>

theorem forward_raises_NameError:
  "isl (snd (Transformer_forward None T token_ids segment_ids attention_mask))
   \<and> forward_defined (Some cfg_example) cfg_example token_ids_example segment_ids_example 1 3
   \<and> snd (Transformer_forward None (Transformer_init cfg_example sd_example)
        token_ids_example (Some segment_ids_example) (Some mask_example)) = Inl NameError"
proof -
  let ?T = "Transformer_init cfg_example sd_example"
  obtain x where x: "cross_block ?T token_ids_example (Some segment_ids_example) (Some mask_example) = Inr x"
    using returnsE [OF example_cross_block] by blast
  have "snd (Transformer_forward None ?T token_ids_example (Some segment_ids_example)
             (Some mask_example)) = Inl NameError"
    by (simp add: forward_value x)
  then show ?thesis using forward_unbound example_defined by blast
qed



text \<open>
  C3. The loop of \<open>n\<close> rounds is the \<open>n\<close>-fold repetition of one round function,
  \<open>self_round\<close> of the one attention module and the one feed-forward module of
  \<open>layers\<close> (and of \<open>norm3\<close>, \<open>norm4\<close>) as they are when the loop starts: every round
  reads the same parameters. So is the loop of a whole forward pass. The round function
  does not depend on the scores a round leaves in the attention module, the only
  thing a round changes.
\<close>

theorem rounds_share_parameters:
  "snd (loop n T x) = iterate n (self_round (layers T) (norm3 T) (norm4 T)) x
   \<and> snd (Transformer_forward (Some g) T token_ids segment_ids attention_mask)
       = rbind (cross_block T token_ids segment_ids attention_mask)
           (iterate (process_layers g) (self_round (layers T) (norm3 T) (norm4 T)))
   \<and> self_round (a\<lparr>scores := s\<rparr>, f) n3 n4 = self_round (a, f) n3 n4"
  by (simp add: loop_snd forward_value self_round_scores)

theorem rounds_share_parameters_witness:
  "returns (snd (loop 2 (Transformer_init cfg_example sd_example) (zeros [1, 4, 8]))) [1, 4, 8]"
proof -
  have c: "D cfg_example = 8" "latent_heads cfg_example = 2"
    by (simp_all add: cfg_example_def)
  have "returns (iterate 2 (self_round (layers (Transformer_init cfg_example sd_example))
            (norm3 (Transformer_init cfg_example sd_example))
            (norm4 (Transformer_init cfg_example sd_example))) (zeros [1, 4, 8])) [1, 4, D cfg_example]"
  proof (rule iterate_shape)
    fix x :: "real tensor"
    assume "shape x = [1, 4, D cfg_example]"
    then show "returns (self_round (layers (Transformer_init cfg_example sd_example))
            (norm3 (Transformer_init cfg_example sd_example))
            (norm4 (Transformer_init cfg_example sd_example)) x) [1, 4, D cfg_example]"
      by (rule self_round_shape(1)) (simp add: c)
  qed (simp add: zeros_def c)
  then show ?thesis
    using rounds_share_parameters [of 2 "Transformer_init cfg_example sd_example" "zeros [1, 4, 8]"]
    by (simp add: c)
qed

subsection \<open>What a call writes\<close>

lemma extends_refl [simp]: "extends \<sigma> \<sigma>"
  by (simp add: extends_def)

lemma extends_trans: "extends \<sigma>1 \<sigma>2 \<Longrightarrow> extends \<sigma>2 \<sigma>3 \<Longrightarrow> extends \<sigma>1 \<sigma>3"
  by (auto simp: extends_def)

lemma isub_inplace_heap:
  "allocated (fst (isub_inplace a b \<sigma>)) = allocated \<sigma>
   \<and> (\<forall>c. c \<noteq> a \<longrightarrow> cells (fst (isub_inplace a b \<sigma>)) c = cells \<sigma> c)"
  by (simp add: isub_inplace_def split: cell.splits sum.splits)

lemma masked_scores_h_heap:
  "allocated (fst (masked_scores_h r msk \<sigma>)) = allocated \<sigma>
   \<and> (\<forall>c. c \<noteq> r \<longrightarrow> cells (fst (masked_scores_h r msk \<sigma>)) c = cells \<sigma> c)"
  using isub_inplace_heap [of r _ \<sigma>]
  by (simp add: masked_scores_h_def split: option.splits sum.splits)

lemma attention_h_extends: "extends \<sigma> (fst (attention_h h q k v msk \<sigma>))"
proof (cases "rbind (split_heads h q) (\<lambda>q.
           rbind (split_heads h k) (\<lambda>k.
           rbind (split_heads h v) (\<lambda>v.
           rbind (scaled_scores q k) (\<lambda>sc. Inr (sc, v)))))")
  case (Inl e)
  then show ?thesis by (simp add: attention_h_def)
next
  case (Inr p)
  obtain sc v' where p: "p = (sc, v')" by (cases p)
  define \<sigma>1 where "\<sigma>1 = \<sigma>\<lparr>cells := (cells \<sigma>)(allocated \<sigma> := Floats sc), allocated := Suc (allocated \<sigma>)\<rparr>"
  let ?r = "allocated \<sigma>"
  have n: "new_tensor sc \<sigma> = (\<sigma>1, ?r)" by (simp add: new_tensor_def \<sigma>1_def)
  have 1: "allocated \<sigma>1 = Suc (allocated \<sigma>)" "\<forall>a<allocated \<sigma>. cells \<sigma>1 a = cells \<sigma> a"
    by (simp_all add: \<sigma>1_def)
  define \<sigma>2 where "\<sigma>2 = fst (masked_scores_h ?r msk \<sigma>1)"
  have 2: "allocated \<sigma>2 = allocated \<sigma>1" "\<forall>c. c \<noteq> ?r \<longrightarrow> cells \<sigma>2 c = cells \<sigma>1 c"
    using masked_scores_h_heap [of ?r msk \<sigma>1] by (simp_all add: \<sigma>2_def)
  have e: "extends \<sigma> \<sigma>2"
    using 1 2 by (simp add: extends_def)
  obtain u where m: "masked_scores_h ?r msk \<sigma>1 = (\<sigma>2, u)"
    by (cases "masked_scores_h ?r msk \<sigma>1") (simp add: \<sigma>2_def)
  have "fst (attention_h h q k v msk \<sigma>) = \<sigma>2"
    by (cases u) (simp_all add: attention_h_def Inr p n m)
  then show ?thesis using e by simp
qed

lemma thread_retain_heap [simp]: "fst (thread_retain m p) = fst p"
  by (simp add: thread_retain_def)

lemma cross_forward_h_extends: "extends \<sigma> (fst (QKVAttention_cross_forward_h m x latent msk \<sigma>))"
  by (simp add: QKVAttention_cross_forward_h_def attention_h_extends split: sum.splits prod.splits)

lemma self_forward_h_extends: "extends \<sigma> (fst (QKVAttention_self_forward_h m x msk \<sigma>))"
  by (simp add: QKVAttention_self_forward_h_def attention_h_extends split: sum.splits prod.splits)

lemma loop_body_h_extends: "extends \<sigma> (fst (loop_body_h T x \<sigma>))"
  using self_forward_h_extends [of \<sigma> "fst (layers T)" x None]
  by (simp add: loop_body_h_def case_prod_beta)

lemma loop_h_extends: "extends \<sigma> (fst (loop_h n T x \<sigma>))"
proof (induction n arbitrary: T x \<sigma>)
  case 0
  show ?case by simp
next
  case (Suc n)
  obtain \<sigma>' T' r where b: "loop_body_h T x \<sigma> = (\<sigma>', T', r)"
    by (cases "loop_body_h T x \<sigma>") auto
  have e: "extends \<sigma> \<sigma>'" using loop_body_h_extends [of \<sigma> T x] b by simp
  show ?case
  proof (cases r)
    case (Inl a)
    then show ?thesis using b e by simp
  next
    case (Inr y)
    then show ?thesis using b extends_trans [OF e Suc.IH [of \<sigma>' T' y]] by simp
  qed
qed

lemma attention_h_value:
  assumes "holds_ints \<sigma> msk"
  shows "snd (attention_h h q k v msk \<sigma>) = attention h q k v (int_tensor_at \<sigma> msk)"
proof (cases "rbind (split_heads h q) (\<lambda>q.
           rbind (split_heads h k) (\<lambda>k.
           rbind (split_heads h v) (\<lambda>v.
           rbind (scaled_scores q k) (\<lambda>sc. Inr (sc, v)))))")
  case (Inl e)
  then have "attention h q k v (int_tensor_at \<sigma> msk) = Inl e"
    by (auto simp: attention_def rbind_def split: sum.splits)
  then show ?thesis using Inl by (simp add: attention_h_def)
next
  case (Inr p)
  obtain sc v' where p: "p = (sc, v')" by (cases p)
  obtain q' k' where s: "split_heads h q = Inr q'" "split_heads h k = Inr k'"
    "split_heads h v = Inr v'" "scaled_scores q' k' = Inr sc"
    using Inr p by (auto simp: rbind_eq_Inr)
  define \<sigma>1 where "\<sigma>1 = \<sigma>\<lparr>cells := (cells \<sigma>)(allocated \<sigma> := Floats sc), allocated := Suc (allocated \<sigma>)\<rparr>"
  let ?r = "allocated \<sigma>"
  have n: "new_tensor sc \<sigma> = (\<sigma>1, ?r)" by (simp add: new_tensor_def \<sigma>1_def)
  have a: "attention h q k v (int_tensor_at \<sigma> msk) =
             rbind (masked_scores sc (int_tensor_at \<sigma> msk)) (\<lambda>sc.
             rbind (merge_heads (softmax sc) v') (\<lambda>h. Inr (softmax sc, h)))"
    by (simp add: attention_def s)
  have b: "snd (attention_h h q k v msk \<sigma>) =
             (case masked_scores_h ?r msk \<sigma>1 of
                (\<sigma>2, Inl e) \<Rightarrow> Inl e
              | (\<sigma>2, Inr u) \<Rightarrow> rbind (read_float \<sigma>2 ?r) (\<lambda>sc.
                     rbind (merge_heads (softmax sc) v') (\<lambda>h. Inr (softmax sc, h))))"
    by (simp add: attention_h_def Inr p n split: prod.splits sum.splits)
  show ?thesis
  proof (cases msk)
    case None
    have "read_float \<sigma>1 ?r = Inr sc" by (simp add: read_float_def \<sigma>1_def)
    then show ?thesis
      unfolding a b by (simp add: None masked_scores_h_def int_tensor_at_def masked_scores_None)
  next
    case (Some m)
    then obtain t where t: "m < allocated \<sigma>" "cells \<sigma> m = Ints t"
      using assms by (auto simp: holds_ints_def split: cell.splits)
    have c1: "cells \<sigma>1 m = Ints t" "cells \<sigma>1 ?r = Floats sc"
      using t by (simp_all add: \<sigma>1_def)
    have i: "int_tensor_at \<sigma> msk = Some t" by (simp add: int_tensor_at_def Some t)
    note a' = a [unfolded i]
    show ?thesis
    proof (cases "getitem_mask t")
      case (Inl e)
      then show ?thesis
        unfolding i a' b
        by (simp add: Some masked_scores_h_def mask_float_def c1 masked_scores_def)
    next
      case g: (Inr m4)
      let ?rhs = "pointwise (\<lambda>v. 10000.0 * v) (pointwise (\<lambda>v. 1.0 - v) (float m4))"
      show ?thesis
      proof (cases "isub sc ?rhs")
        case (Inl e)
        then show ?thesis
          unfolding i a' b
          by (simp add: Some masked_scores_h_def mask_float_def c1 masked_scores_def g isub_inplace_def)
      next
        case (Inr sc')
        then show ?thesis
          unfolding i a' b
          by (simp add: Some masked_scores_h_def mask_float_def c1 masked_scores_def g isub_inplace_def
              read_float_def)
      qed
    qed
  qed
qed

lemma thread_retain_snd [simp]: "snd (thread_retain m p) = retain m (snd p)"
  by (simp add: thread_retain_def)

lemma cross_forward_h_value:
  assumes "holds_ints \<sigma> msk"
  shows "snd (QKVAttention_cross_forward_h m x latent msk \<sigma>)
           = QKVAttention_cross_forward m x latent (int_tensor_at \<sigma> msk)"
proof (cases "rbind (Linear_forward (proj_q m) latent) (\<lambda>q.
             rbind (Linear_forward (proj_k m) x) (\<lambda>k.
             rbind (Linear_forward (proj_v m) x) (\<lambda>v. Inr (q, k, v))))")
  case (Inl e)
  then have "rbind (Linear_forward (proj_q m) latent) (\<lambda>q.
             rbind (Linear_forward (proj_k m) x) (\<lambda>k.
             rbind (Linear_forward (proj_v m) x) (\<lambda>v.
             attention (n_heads' m) q k v (int_tensor_at \<sigma> msk)))) = Inl e"
    by (auto simp: rbind_def split: sum.splits)
  then show ?thesis
    using Inl by (simp add: QKVAttention_cross_forward_h_def QKVAttention_cross_forward_def)
next
  case (Inr p)
  obtain q k v where p: "p = (q, k, v)" by (cases p)
  have s: "Linear_forward (proj_q m) latent = Inr q" "Linear_forward (proj_k m) x = Inr k"
    "Linear_forward (proj_v m) x = Inr v"
    using Inr p by (auto simp: rbind_eq_Inr)
  show ?thesis
    using attention_h_value [OF assms, of "n_heads' m" q k v]
    by (simp add: QKVAttention_cross_forward_h_def QKVAttention_cross_forward_def s)
qed

lemma self_forward_h_value:
  "snd (QKVAttention_self_forward_h m x None \<sigma>) = QKVAttention_self_forward m x None"
proof (cases "rbind (Linear_forward (proj_q m) x) (\<lambda>q.
             rbind (Linear_forward (proj_k m) x) (\<lambda>k.
             rbind (Linear_forward (proj_v m) x) (\<lambda>v. Inr (q, k, v))))")
  case (Inl e)
  then have "rbind (Linear_forward (proj_q m) x) (\<lambda>q.
             rbind (Linear_forward (proj_k m) x) (\<lambda>k.
             rbind (Linear_forward (proj_v m) x) (\<lambda>v.
             attention (n_heads' m) q k v None))) = Inl e"
    by (auto simp: rbind_def split: sum.splits)
  then show ?thesis
    using Inl by (simp add: QKVAttention_self_forward_h_def QKVAttention_self_forward_def)
next
  case (Inr p)
  obtain q k v where p: "p = (q, k, v)" by (cases p)
  have s: "Linear_forward (proj_q m) x = Inr q" "Linear_forward (proj_k m) x = Inr k"
    "Linear_forward (proj_v m) x = Inr v"
    using Inr p by (auto simp: rbind_eq_Inr)
  have h: "holds_ints \<sigma> None" by (simp add: holds_ints_def)
  show ?thesis
    using attention_h_value [OF h, of "n_heads' m" q k v]
    by (simp add: QKVAttention_self_forward_h_def QKVAttention_self_forward_def s int_tensor_at_def)
qed

lemma loop_body_h_value: "snd (loop_body_h T x \<sigma>) = loop_body T x"
  using self_forward_h_value [of "fst (layers T)" x \<sigma>]
  by (simp add: loop_body_h_def loop_body_def case_prod_beta)

lemma loop_h_value: "snd (loop_h n T x \<sigma>) = loop n T x"
proof (induction n arbitrary: T x \<sigma>)
  case 0
  show ?case by simp
next
  case (Suc n)
  obtain \<sigma>' T' r where b: "loop_body_h T x \<sigma> = (\<sigma>', T', r)"
    by (cases "loop_body_h T x \<sigma>") auto
  then have b': "loop_body T x = (T', r)" using loop_body_h_value [of T x \<sigma>] by simp
  show ?case
  proof (cases r)
    case (Inl a)
    then show ?thesis using b b' by simp
  next
    case (Inr y)
    then show ?thesis using b b' Suc.IH [of T' y \<sigma>'] by simp
  qed
qed

lemma Embeddings_forward_h_value:
  "cells \<sigma> x = Ints t \<Longrightarrow>
   Embeddings_forward_h m x seg \<sigma> = Embeddings_forward m t (int_tensor_at \<sigma> seg)"
  by (simp add: Embeddings_forward_h_def int_tensor_at_def)

lemma forward_h_value:
  assumes "cells \<sigma> input_ids = Ints t" "holds_ints \<sigma> attention_mask"
  shows "snd (Transformer_forward_h g T input_ids token_type_ids attention_mask \<sigma>)
           = Transformer_forward g T t (int_tensor_at \<sigma> token_type_ids) (int_tensor_at \<sigma> attention_mask)"
proof (cases "Embeddings_forward (embed T) t (int_tensor_at \<sigma> token_type_ids)")
  case (Inl e)
  then show ?thesis
    by (simp add: Transformer_forward_h_def Transformer_forward_def
        Embeddings_forward_h_value [OF assms(1)])
next
  case (Inr h)
  obtain \<sigma>' ca' a where c: "QKVAttention_cross_forward_h (fst (cross_attend_blocks T)) h (latents T)
       attention_mask \<sigma> = (\<sigma>', ca', a)"
    by (cases "QKVAttention_cross_forward_h (fst (cross_attend_blocks T)) h (latents T) attention_mask \<sigma>")
       auto
  then have c': "QKVAttention_cross_forward (fst (cross_attend_blocks T)) h (latents T)
       (int_tensor_at \<sigma> attention_mask) = (ca', a)"
    using cross_forward_h_value [OF assms(2), of "fst (cross_attend_blocks T)" h "latents T"] by simp
  define r where "r = rbind (add_norm (norm1 T) a (latents T)) (\<lambda>x.
                   add_norm (norm2 T) (FeedForward_forward (snd (cross_attend_blocks T)) x) x)"
  show ?thesis
  proof (cases r)
    case (Inl e)
    then show ?thesis
      using Inr c c'
      by (simp add: Transformer_forward_h_def Transformer_forward_def
          Embeddings_forward_h_value [OF assms(1)] case_prod_beta Let_def r_def)
  next
    case rx: (Inr x)
    show ?thesis
    proof (cases g)
      case None
      then show ?thesis
        using Inr c c' rx
        by (simp add: Transformer_forward_h_def Transformer_forward_def
            Embeddings_forward_h_value [OF assms(1)] case_prod_beta Let_def r_def)
    next
      case (Some cfg)
      then show ?thesis
        using Inr c c' rx
        by (simp add: Transformer_forward_h_def Transformer_forward_def
            Embeddings_forward_h_value [OF assms(1)] case_prod_beta Let_def r_def loop_h_value)
    qed
  qed
qed

lemma forward_h_extends:
  "extends \<sigma> (fst (Transformer_forward_h g T input_ids token_type_ids attention_mask \<sigma>))"
proof (cases "Embeddings_forward_h (embed T) input_ids token_type_ids \<sigma>")
  case (Inl e)
  then show ?thesis by (simp add: Transformer_forward_h_def)
next
  case (Inr h)
  obtain \<sigma>' ca' a where c: "QKVAttention_cross_forward_h (fst (cross_attend_blocks T)) h (latents T)
       attention_mask \<sigma> = (\<sigma>', ca', a)"
    by (cases "QKVAttention_cross_forward_h (fst (cross_attend_blocks T)) h (latents T) attention_mask \<sigma>")
       auto
  have e: "extends \<sigma> \<sigma>'"
    using cross_forward_h_extends [of \<sigma> "fst (cross_attend_blocks T)" h "latents T" attention_mask] c
    by simp
  define r where "r = rbind (add_norm (norm1 T) a (latents T)) (\<lambda>x.
                   add_norm (norm2 T) (FeedForward_forward (snd (cross_attend_blocks T)) x) x)"
  show ?thesis
  proof (cases r)
    case (Inl e')
    then show ?thesis
      using Inr c e by (simp add: Transformer_forward_h_def case_prod_beta Let_def r_def)
  next
    case rx: (Inr x)
    show ?thesis
    proof (cases g)
      case None
      then show ?thesis
        using Inr c e rx by (simp add: Transformer_forward_h_def case_prod_beta Let_def r_def)
    next
      case (Some cfg)
      have "extends \<sigma> (fst (loop_h (process_layers cfg)
               (T\<lparr>cross_attend_blocks := (ca', snd (cross_attend_blocks T))\<rparr>) x \<sigma>'))"
        by (rule extends_trans [OF e loop_h_extends])
      then show ?thesis
        using Inr c rx Some by (simp add: Transformer_forward_h_def case_prod_beta Let_def r_def)
    qed
  qed
qed

lemma extends_int_tensor_at:
  "extends \<sigma> \<sigma>' \<Longrightarrow> holds_ints \<sigma> r \<Longrightarrow> int_tensor_at \<sigma>' r = int_tensor_at \<sigma> r"
  by (cases r) (auto simp: extends_def holds_ints_def int_tensor_at_def)

lemma extends_holds_ints: "extends \<sigma> \<sigma>' \<Longrightarrow> holds_ints \<sigma> r \<Longrightarrow> holds_ints \<sigma>' r"
  by (cases r) (auto simp: extends_def holds_ints_def)

lemma thread_retain_module: "\<exists>s. fst (snd (thread_retain m p)) = m\<lparr>scores := s\<rparr>"
  using retain_fst [of m "snd p"] by simp

lemma cross_forward_h_module:
  "\<exists>s. fst (snd (QKVAttention_cross_forward_h m x latent msk \<sigma>)) = m\<lparr>scores := s\<rparr>"
  unfolding QKVAttention_cross_forward_h_def by (rule thread_retain_module)

lemma self_forward_h_module:
  "\<exists>s. fst (snd (QKVAttention_self_forward_h m x msk \<sigma>)) = m\<lparr>scores := s\<rparr>"
  unfolding QKVAttention_self_forward_h_def by (rule thread_retain_module)

lemma thread_retain_scores:
  "fst (thread_retain (m\<lparr>scores := s\<rparr>) p) = fst (thread_retain m p)
   \<and> snd (snd (thread_retain (m\<lparr>scores := s\<rparr>) p)) = snd (snd (thread_retain m p))
   \<and> (\<exists>s'. fst (snd (thread_retain (m\<lparr>scores := s\<rparr>) p)) = (fst (snd (thread_retain m p)))\<lparr>scores := s'\<rparr>)"
proof (cases "snd p")
  case (Inl e)
  then show ?thesis by (auto simp: retain_def)
next
  case (Inr q)
  have "(m\<lparr>scores := Some (fst q)\<rparr>) = (m\<lparr>scores := Some (fst q)\<rparr>)\<lparr>scores := Some (fst q)\<rparr>"
    by simp
  then show ?thesis using Inr by (cases q) (auto simp: retain_def)
qed

lemma self_forward_h_scores:
  "fst (QKVAttention_self_forward_h (m\<lparr>scores := s\<rparr>) x msk \<sigma>)
     = fst (QKVAttention_self_forward_h m x msk \<sigma>)
   \<and> snd (snd (QKVAttention_self_forward_h (m\<lparr>scores := s\<rparr>) x msk \<sigma>))
     = snd (snd (QKVAttention_self_forward_h m x msk \<sigma>))
   \<and> (\<exists>s'. fst (snd (QKVAttention_self_forward_h (m\<lparr>scores := s\<rparr>) x msk \<sigma>))
           = (fst (snd (QKVAttention_self_forward_h m x msk \<sigma>)))\<lparr>scores := s'\<rparr>)"
proof -
  define p where "p = (case rbind (Linear_forward (proj_q m) x) (\<lambda>q.
             rbind (Linear_forward (proj_k m) x) (\<lambda>k.
             rbind (Linear_forward (proj_v m) x) (\<lambda>v. Inr (q, k, v)))) of
          Inl e \<Rightarrow> (\<sigma>, Inl e)
        | Inr (q, k, v) \<Rightarrow> attention_h (n_heads' m) q k v msk \<sigma>)"
  have 1: "QKVAttention_self_forward_h m x msk \<sigma> = thread_retain m p"
    by (simp add: QKVAttention_self_forward_h_def p_def)
  have 2: "QKVAttention_self_forward_h (m\<lparr>scores := s\<rparr>) x msk \<sigma> = thread_retain (m\<lparr>scores := s\<rparr>) p"
    by (simp add: QKVAttention_self_forward_h_def p_def split: sum.splits prod.splits)
  show ?thesis unfolding 1 2 by (rule thread_retain_scores)
qed

lemma cross_forward_h_scores:
  "fst (QKVAttention_cross_forward_h (m\<lparr>scores := s\<rparr>) x l msk \<sigma>)
     = fst (QKVAttention_cross_forward_h m x l msk \<sigma>)
   \<and> snd (snd (QKVAttention_cross_forward_h (m\<lparr>scores := s\<rparr>) x l msk \<sigma>))
     = snd (snd (QKVAttention_cross_forward_h m x l msk \<sigma>))
   \<and> (\<exists>s'. fst (snd (QKVAttention_cross_forward_h (m\<lparr>scores := s\<rparr>) x l msk \<sigma>))
           = (fst (snd (QKVAttention_cross_forward_h m x l msk \<sigma>)))\<lparr>scores := s'\<rparr>)"
proof -
  define p where "p = (case rbind (Linear_forward (proj_q m) l) (\<lambda>q.
             rbind (Linear_forward (proj_k m) x) (\<lambda>k.
             rbind (Linear_forward (proj_v m) x) (\<lambda>v. Inr (q, k, v)))) of
          Inl e \<Rightarrow> (\<sigma>, Inl e)
        | Inr (q, k, v) \<Rightarrow> attention_h (n_heads' m) q k v msk \<sigma>)"
  have 1: "QKVAttention_cross_forward_h m x l msk \<sigma> = thread_retain m p"
    by (simp add: QKVAttention_cross_forward_h_def p_def)
  have 2: "QKVAttention_cross_forward_h (m\<lparr>scores := s\<rparr>) x l msk \<sigma> = thread_retain (m\<lparr>scores := s\<rparr>) p"
    by (simp add: QKVAttention_cross_forward_h_def p_def split: sum.splits prod.splits)
  show ?thesis unfolding 1 2 by (rule thread_retain_scores)
qed

lemma loop_body_h_module:
  "\<exists>s. fst (snd (loop_body_h T x \<sigma>)) = T\<lparr>layers := ((fst (layers T))\<lparr>scores := s\<rparr>, snd (layers T))\<rparr>"
proof -
  obtain s where "fst (snd (QKVAttention_self_forward_h (fst (layers T)) x None \<sigma>))
                    = (fst (layers T))\<lparr>scores := s\<rparr>"
    using self_forward_h_module by blast
  then show ?thesis
    by (auto simp: loop_body_h_def case_prod_beta)
qed

lemma loop_h_module:
  "\<exists>s. fst (snd (loop_h n T x \<sigma>)) = T\<lparr>layers := ((fst (layers T))\<lparr>scores := s\<rparr>, snd (layers T))\<rparr>"
proof (induction n arbitrary: T x \<sigma>)
  case 0
  have "T = T\<lparr>layers := ((fst (layers T))\<lparr>scores := scores (fst (layers T))\<rparr>, snd (layers T))\<rparr>"
    by simp
  then show ?case by (metis loop_h.simps(1) fst_conv snd_conv)
next
  case (Suc n)
  obtain \<sigma>' T' r where b: "loop_body_h T x \<sigma> = (\<sigma>', T', r)"
    by (cases "loop_body_h T x \<sigma>") auto
  obtain s where T': "T' = T\<lparr>layers := ((fst (layers T))\<lparr>scores := s\<rparr>, snd (layers T))\<rparr>"
    using loop_body_h_module [of T x \<sigma>] b by auto
  show ?case
  proof (cases r)
    case (Inl e)
    then show ?thesis using b T' by auto
  next
    case (Inr y)
    obtain s' where "fst (snd (loop_h n T' y \<sigma>'))
                       = T'\<lparr>layers := ((fst (layers T'))\<lparr>scores := s'\<rparr>, snd (layers T'))\<rparr>"
      using Suc.IH [of T' y \<sigma>'] by blast
    then have "fst (snd (loop_h (Suc n) T x \<sigma>))
                 = T\<lparr>layers := ((fst (layers T))\<lparr>scores := s'\<rparr>, snd (layers T))\<rparr>"
      using b Inr by (simp add: T')
    then show ?thesis by blast
  qed
qed

lemma loop_body_h_scores:
  assumes "layers Tb = ((fst (layers Ta))\<lparr>scores := s\<rparr>, snd (layers Ta))"
    "norm3 Tb = norm3 Ta" "norm4 Tb = norm4 Ta"
  shows "fst (loop_body_h Tb x \<sigma>) = fst (loop_body_h Ta x \<sigma>)
       \<and> snd (snd (loop_body_h Tb x \<sigma>)) = snd (snd (loop_body_h Ta x \<sigma>))
       \<and> (\<exists>s'. layers (fst (snd (loop_body_h Tb x \<sigma>)))
              = ((fst (layers (fst (snd (loop_body_h Ta x \<sigma>)))))\<lparr>scores := s'\<rparr>,
                 snd (layers (fst (snd (loop_body_h Ta x \<sigma>))))))
       \<and> norm3 (fst (snd (loop_body_h Tb x \<sigma>))) = norm3 (fst (snd (loop_body_h Ta x \<sigma>)))
       \<and> norm4 (fst (snd (loop_body_h Tb x \<sigma>))) = norm4 (fst (snd (loop_body_h Ta x \<sigma>)))"
proof -
  let ?a = "fst (layers Ta)"
  let ?A1 = "QKVAttention_self_forward_h ?a x None \<sigma>"
  let ?A2 = "QKVAttention_self_forward_h (?a\<lparr>scores := s\<rparr>) x None \<sigma>"
  obtain s' where a: "fst ?A2 = fst ?A1" "snd (snd ?A2) = snd (snd ?A1)"
    "fst (snd ?A2) = (fst (snd ?A1))\<lparr>scores := s'\<rparr>"
    using self_forward_h_scores [where m = ?a and s = s and x = x and msk = None and \<sigma> = \<sigma>] by blast
  have 1: "fst (loop_body_h Tb x \<sigma>) = fst (loop_body_h Ta x \<sigma>)"
    by (simp add: assms loop_body_h_def case_prod_beta a)
  have 2: "snd (snd (loop_body_h Tb x \<sigma>)) = snd (snd (loop_body_h Ta x \<sigma>))"
    by (simp add: assms loop_body_h_def case_prod_beta a)
  have 3: "layers (fst (snd (loop_body_h Tb x \<sigma>)))
              = ((fst (layers (fst (snd (loop_body_h Ta x \<sigma>)))))\<lparr>scores := s'\<rparr>,
                 snd (layers (fst (snd (loop_body_h Ta x \<sigma>)))))"
    by (simp add: assms loop_body_h_def case_prod_beta a)
  have 4: "norm3 (fst (snd (loop_body_h Tb x \<sigma>))) = norm3 (fst (snd (loop_body_h Ta x \<sigma>)))"
    "norm4 (fst (snd (loop_body_h Tb x \<sigma>))) = norm4 (fst (snd (loop_body_h Ta x \<sigma>)))"
    by (simp_all add: assms loop_body_h_def case_prod_beta)
  show ?thesis using 1 2 3 4 by blast
qed

lemma loop_h_scores:
  assumes "layers Tb = ((fst (layers Ta))\<lparr>scores := s\<rparr>, snd (layers Ta))"
    "norm3 Tb = norm3 Ta" "norm4 Tb = norm4 Ta"
  shows "fst (loop_h n Tb x \<sigma>) = fst (loop_h n Ta x \<sigma>)
       \<and> snd (snd (loop_h n Tb x \<sigma>)) = snd (snd (loop_h n Ta x \<sigma>))"
  using assms
proof (induction n arbitrary: Ta Tb s x \<sigma>)
  case 0
  show ?case by simp
next
  case (Suc n)
  obtain \<sigma>' Ta' r where b1: "loop_body_h Ta x \<sigma> = (\<sigma>', Ta', r)"
    by (cases "loop_body_h Ta x \<sigma>") auto
  obtain Tb' s' where b2: "loop_body_h Tb x \<sigma> = (\<sigma>', Tb', r)"
    and rel: "layers Tb' = ((fst (layers Ta'))\<lparr>scores := s'\<rparr>, snd (layers Ta'))"
      "norm3 Tb' = norm3 Ta'" "norm4 Tb' = norm4 Ta'"
    using loop_body_h_scores [OF Suc.prems, of x \<sigma>] b1
    by (cases "loop_body_h Tb x \<sigma>") auto
  show ?case
  proof (cases r)
    case (Inl e)
    then show ?thesis using b1 b2 by simp
  next
    case (Inr y)
    then show ?thesis
      using b1 b2 Suc.IH [OF rel, of y \<sigma>'] by simp
  qed
qed

lemma forward_h_scores:
  "fst (Transformer_forward_h g (with_scores r1 r2 T) input_ids token_type_ids attention_mask \<sigma>)
     = fst (Transformer_forward_h g T input_ids token_type_ids attention_mask \<sigma>)
   \<and> snd (snd (Transformer_forward_h g (with_scores r1 r2 T) input_ids token_type_ids attention_mask \<sigma>))
     = snd (snd (Transformer_forward_h g T input_ids token_type_ids attention_mask \<sigma>))"
proof (cases "Embeddings_forward_h (embed T) input_ids token_type_ids \<sigma>")
  case (Inl e)
  then show ?thesis by (simp add: Transformer_forward_h_def with_scores_def)
next
  case (Inr h)
  let ?W = "with_scores r1 r2 T"
  let ?ca = "fst (cross_attend_blocks T)"
  let ?ff = "snd (cross_attend_blocks T)"
  obtain \<sigma>' ca' a where c: "QKVAttention_cross_forward_h ?ca h (latents T) attention_mask \<sigma> = (\<sigma>', ca', a)"
    by (cases "QKVAttention_cross_forward_h ?ca h (latents T) attention_mask \<sigma>") auto
  obtain s' where c2: "QKVAttention_cross_forward_h (?ca\<lparr>scores := r1\<rparr>) h (latents T) attention_mask \<sigma>
                         = (\<sigma>', ca'\<lparr>scores := s'\<rparr>, a)"
    using cross_forward_h_scores [where m = ?ca and s = r1 and x = h and l = "latents T"
        and msk = attention_mask and \<sigma> = \<sigma>] c
    by (cases "QKVAttention_cross_forward_h (?ca\<lparr>scores := r1\<rparr>) h (latents T) attention_mask \<sigma>") auto
  define Ta where "Ta = T\<lparr>cross_attend_blocks := (ca', ?ff)\<rparr>"
  define Tb where "Tb = ?W\<lparr>cross_attend_blocks := (ca'\<lparr>scores := s'\<rparr>, ?ff)\<rparr>"
  define r where "r = rbind (add_norm (norm1 T) a (latents T)) (\<lambda>x. add_norm (norm2 T) (FeedForward_forward ?ff x) x)"
  have w: "embed ?W = embed T" "latents ?W = latents T" "norm1 ?W = norm1 T" "norm2 ?W = norm2 T"
    "cross_attend_blocks ?W = (?ca\<lparr>scores := r1\<rparr>, ?ff)"
    by (simp_all add: with_scores_def)
  have rel: "layers Tb = ((fst (layers Ta))\<lparr>scores := r2\<rparr>, snd (layers Ta))"
    "norm3 Tb = norm3 Ta" "norm4 Tb = norm4 Ta"
    by (simp_all add: Ta_def Tb_def with_scores_def)
  show ?thesis
  proof (cases r)
    case (Inl e)
    then show ?thesis
      using Inr c c2
      by (simp add: Transformer_forward_h_def w case_prod_beta Let_def r_def)
  next
    case rx: (Inr x)
    show ?thesis
    proof (cases g)
      case None
      then show ?thesis
        using Inr c c2 rx
        by (simp add: Transformer_forward_h_def w case_prod_beta Let_def r_def)
    next
      case (Some cfg)
      have 1: "Transformer_forward_h g T input_ids token_type_ids attention_mask \<sigma>
                 = loop_h (process_layers cfg) Ta x \<sigma>'"
        using Inr c rx Some
        by (simp add: Transformer_forward_h_def case_prod_beta Let_def r_def Ta_def)
      have 2: "Transformer_forward_h g ?W input_ids token_type_ids attention_mask \<sigma>
                 = loop_h (process_layers cfg) Tb x \<sigma>'"
        using Inr c2 rx Some
        by (simp add: Transformer_forward_h_def w case_prod_beta Let_def r_def Tb_def)
      show ?thesis unfolding 1 2 by (rule loop_h_scores [OF rel])
    qed
  qed
qed

lemma forward_h_module:
  "\<exists>s1 s2. fst (snd (Transformer_forward_h g T input_ids token_type_ids attention_mask \<sigma>))
             = with_scores s1 s2 T"
proof (cases "Embeddings_forward_h (embed T) input_ids token_type_ids \<sigma>")
  case (Inl e)
  then have "fst (snd (Transformer_forward_h g T input_ids token_type_ids attention_mask \<sigma>)) = T"
    by (simp add: Transformer_forward_h_def)
  then show ?thesis using with_scores_same [of T] by metis
next
  case (Inr h)
  let ?ca = "fst (cross_attend_blocks T)"
  let ?ff = "snd (cross_attend_blocks T)"
  obtain \<sigma>' ca' a where c: "QKVAttention_cross_forward_h ?ca h (latents T) attention_mask \<sigma> = (\<sigma>', ca', a)"
    by (cases "QKVAttention_cross_forward_h ?ca h (latents T) attention_mask \<sigma>") auto
  obtain s1 where s1: "ca' = ?ca\<lparr>scores := s1\<rparr>"
    using cross_forward_h_module [of ?ca h "latents T" attention_mask \<sigma>] c by auto
  define T' where "T' = T\<lparr>cross_attend_blocks := (?ca\<lparr>scores := s1\<rparr>, ?ff)\<rparr>"
  define r where "r = rbind (add_norm (norm1 T) a (latents T)) (\<lambda>x. add_norm (norm2 T) (FeedForward_forward ?ff x) x)"
  have a: "T' = with_scores s1 (scores (fst (layers T))) T"
    by (simp add: T'_def with_scores_def)
  have b: "\<exists>s2. fst (snd (loop_h n T' x \<sigma>'')) = with_scores s1 s2 T" for n x \<sigma>''
  proof -
    obtain s2 where "fst (snd (loop_h n T' x \<sigma>''))
                       = T'\<lparr>layers := ((fst (layers T'))\<lparr>scores := s2\<rparr>, snd (layers T'))\<rparr>"
      using loop_h_module by blast
    then have "fst (snd (loop_h n T' x \<sigma>'')) = with_scores s1 s2 T"
      by (simp add: T'_def with_scores_def)
    then show ?thesis by blast
  qed
  show ?thesis
  proof (cases r)
    case (Inl e)
    then have "fst (snd (Transformer_forward_h g T input_ids token_type_ids attention_mask \<sigma>)) = T'"
      using Inr c s1 by (simp add: Transformer_forward_h_def case_prod_beta Let_def r_def T'_def)
    then show ?thesis using a by metis
  next
    case rx: (Inr x)
    show ?thesis
    proof (cases g)
      case None
      then have "fst (snd (Transformer_forward_h g T input_ids token_type_ids attention_mask \<sigma>)) = T'"
        using Inr c s1 rx by (simp add: Transformer_forward_h_def case_prod_beta Let_def r_def T'_def)
      then show ?thesis using a by metis
    next
      case (Some cfg)
      then have "fst (snd (Transformer_forward_h g T input_ids token_type_ids attention_mask \<sigma>))
                   = fst (snd (loop_h (process_layers cfg) T' x \<sigma>'))"
        using Inr c s1 rx by (simp add: Transformer_forward_h_def case_prod_beta Let_def r_def T'_def)
      then show ?thesis using b [of "process_layers cfg" x \<sigma>'] by metis
    qed
  qed
qed


text \<open>
  C9. A call of \<open>forward\<close>, also one that raises, leaves every tensor that was in use
  before it as it was: the token ids, the segment ids and the mask that the caller
  holds are not written (the one in-place statement writes the cell of \<open>scores\<close>,
  which the call itself has created). The module after the call is the module before it
  with other retained scores in its two attention modules, and nothing else changed:
  not the latents, not the embeddings, not a projection, not a normalization. Neither
  the heap nor the result of a call depends on the scores retained before it. When the
  inputs are integer tensors in use, the call returns what the definitions by value
  return.
\<close>

theorem forward_frame:
  "(\<forall>a<allocated \<sigma>.
      cells (fst (Transformer_forward_h g T input_ids token_type_ids attention_mask \<sigma>)) a = cells \<sigma> a)
   \<and> (input_ids < allocated \<sigma> \<longrightarrow>
        cells (fst (Transformer_forward_h g T input_ids token_type_ids attention_mask \<sigma>)) input_ids
          = cells \<sigma> input_ids)
   \<and> (\<forall>a. token_type_ids = Some a \<and> a < allocated \<sigma> \<longrightarrow>
        cells (fst (Transformer_forward_h g T input_ids token_type_ids attention_mask \<sigma>)) a
          = cells \<sigma> a)
   \<and> (\<forall>a. attention_mask = Some a \<and> a < allocated \<sigma> \<longrightarrow>
        cells (fst (Transformer_forward_h g T input_ids token_type_ids attention_mask \<sigma>)) a
          = cells \<sigma> a)
   \<and> (\<exists>s1 s2. fst (snd (Transformer_forward_h g T input_ids token_type_ids attention_mask \<sigma>))
                 = with_scores s1 s2 T)
   \<and> latents (fst (snd (Transformer_forward_h g T input_ids token_type_ids attention_mask \<sigma>)))
       = latents T
   \<and> embed (fst (snd (Transformer_forward_h g T input_ids token_type_ids attention_mask \<sigma>)))
       = embed T
   \<and> norm1 (fst (snd (Transformer_forward_h g T input_ids token_type_ids attention_mask \<sigma>)))
       = norm1 T
   \<and> norm2 (fst (snd (Transformer_forward_h g T input_ids token_type_ids attention_mask \<sigma>)))
       = norm2 T
   \<and> norm3 (fst (snd (Transformer_forward_h g T input_ids token_type_ids attention_mask \<sigma>)))
       = norm3 T
   \<and> norm4 (fst (snd (Transformer_forward_h g T input_ids token_type_ids attention_mask \<sigma>)))
       = norm4 T
   \<and> fst (Transformer_forward_h g (with_scores r1 r2 T) input_ids token_type_ids attention_mask \<sigma>)
       = fst (Transformer_forward_h g T input_ids token_type_ids attention_mask \<sigma>)
   \<and> snd (snd (Transformer_forward_h g (with_scores r1 r2 T) input_ids token_type_ids
                  attention_mask \<sigma>))
       = snd (snd (Transformer_forward_h g T input_ids token_type_ids attention_mask \<sigma>))
   \<and> (cells \<sigma> input_ids = Ints t \<and> holds_ints \<sigma> attention_mask \<longrightarrow>
        snd (Transformer_forward_h g T input_ids token_type_ids attention_mask \<sigma>)
          = Transformer_forward g T t (int_tensor_at \<sigma> token_type_ids)
              (int_tensor_at \<sigma> attention_mask))"
proof -
  let ?R = "Transformer_forward_h g T input_ids token_type_ids attention_mask \<sigma>"
  have e: "extends \<sigma> (fst ?R)" by (rule forward_h_extends)
  then have 1: "\<forall>a<allocated \<sigma>. cells (fst ?R) a = cells \<sigma> a"
    by (simp add: extends_def)
  obtain s1 s2 where 2: "fst (snd ?R) = with_scores s1 s2 T"
    using forward_h_module by blast
  have 3: "latents (fst (snd ?R)) = latents T" "embed (fst (snd ?R)) = embed T"
    "norm1 (fst (snd ?R)) = norm1 T" "norm2 (fst (snd ?R)) = norm2 T"
    "norm3 (fst (snd ?R)) = norm3 T" "norm4 (fst (snd ?R)) = norm4 T"
    unfolding 2 by (simp_all add: with_scores_def)
  have 4: "fst (Transformer_forward_h g (with_scores r1 r2 T) input_ids token_type_ids attention_mask \<sigma>)
             = fst ?R"
    "snd (snd (Transformer_forward_h g (with_scores r1 r2 T) input_ids token_type_ids attention_mask \<sigma>))
             = snd (snd ?R)"
    using forward_h_scores [of g r1 r2 T input_ids token_type_ids attention_mask \<sigma>] by simp_all
  have 5: "snd ?R = Transformer_forward g T t (int_tensor_at \<sigma> token_type_ids)
              (int_tensor_at \<sigma> attention_mask)"
    if "cells \<sigma> input_ids = Ints t \<and> holds_ints \<sigma> attention_mask"
    using that forward_h_value by blast
  show ?thesis using 1 2 3 4 5 by blast
qed


theorem forward_frame_witness:
  "cells (fst (Transformer_forward_h (Some cfg_example) (Transformer_init cfg_example sd_example)
       0 (Some 1) (Some 2) heap_example)) 0 = Ints token_ids_example
   \<and> cells (fst (Transformer_forward_h (Some cfg_example) (Transformer_init cfg_example sd_example)
       0 (Some 1) (Some 2) heap_example)) 1 = Ints segment_ids_example
   \<and> cells (fst (Transformer_forward_h (Some cfg_example) (Transformer_init cfg_example sd_example)
       0 (Some 1) (Some 2) heap_example)) 2 = Ints mask_example
   \<and> latents (fst (snd (Transformer_forward_h (Some cfg_example)
       (Transformer_init cfg_example sd_example) 0 (Some 1) (Some 2) heap_example)))
       = latents (Transformer_init cfg_example sd_example)
   \<and> snd (Transformer_forward_h (Some cfg_example) (Transformer_init cfg_example sd_example)
       0 (Some 1) (Some 2) heap_example)
       = Transformer_forward (Some cfg_example) (Transformer_init cfg_example sd_example)
           token_ids_example (Some segment_ids_example) (Some mask_example)"
proof -
  let ?R = "Transformer_forward_h (Some cfg_example) (Transformer_init cfg_example sd_example)
       0 (Some 1) (Some 2) heap_example"
  have c: "cells heap_example 0 = Ints token_ids_example"
    "cells heap_example 1 = Ints segment_ids_example" "cells heap_example 2 = Ints mask_example"
    "allocated heap_example = 3"
    by (simp_all add: heap_example_def)
  have h: "holds_ints heap_example (Some 2)"
    "int_tensor_at heap_example (Some 1) = Some segment_ids_example"
    "int_tensor_at heap_example (Some 2) = Some mask_example"
    by (simp_all add: holds_ints_def int_tensor_at_def heap_example_def)
  note F = forward_frame [of heap_example "Some cfg_example"
      "Transformer_init cfg_example sd_example" 0 "Some 1" "Some 2" None None token_ids_example]
  have a: "\<forall>a<allocated heap_example. cells (fst ?R) a = cells heap_example a"
    by (rule F [THEN conjunct1])
  have l: "latents (fst (snd ?R)) = latents (Transformer_init cfg_example sd_example)"
    using F by (elim conjE)
  have "cells heap_example 0 = Ints token_ids_example \<and> holds_ints heap_example (Some 2) \<longrightarrow>
        snd ?R = Transformer_forward (Some cfg_example) (Transformer_init cfg_example sd_example)
           token_ids_example (int_tensor_at heap_example (Some 1)) (int_tensor_at heap_example (Some 2))"
    using F by (elim conjE)
  then have v: "snd ?R = Transformer_forward (Some cfg_example) (Transformer_init cfg_example sd_example)
           token_ids_example (Some segment_ids_example) (Some mask_example)"
    using c(1) h by simp
  have c0: "cells (fst ?R) 0 = Ints token_ids_example"
    using a by (simp add: heap_example_def)
  have c1: "cells (fst ?R) 1 = Ints segment_ids_example"
    using a by (simp add: heap_example_def)
  have c2: "cells (fst ?R) 2 = Ints mask_example"
    using a by (simp add: heap_example_def)
  show ?thesis by (intro conjI c0 c1 c2 l v)
qed


text \<open>
  C10. When \<open>hidden\<close> is not \<open>C\<close>, \<open>forward\<close> fails on every input, whatever the shapes,
  the mask and the binding of \<open>cfg\<close>: what \<open>embed\<close> returns has the width \<open>hidden\<close>, and
  the key and value projections of the cross-attention take the width \<open>C\<close>.
\<close>

theorem forward_needs_hidden_eq_C:
  assumes "hidden cfg \<noteq> C cfg"
  shows "isl (snd (Transformer_forward g (Transformer_init cfg sd) token_ids segment_ids attention_mask))
       \<and> (\<forall>h. Embeddings_forward (embed (Transformer_init cfg sd)) token_ids segment_ids = Inr h
              \<longrightarrow> shape h \<noteq> [] \<and> last (shape h) = hidden cfg)
       \<and> shape (lin_weight (proj_k (fst (cross_attend_blocks (Transformer_init cfg sd))))) = [D cfg, C cfg]
       \<and> shape (lin_weight (proj_v (fst (cross_attend_blocks (Transformer_init cfg sd))))) = [D cfg, C cfg]"
proof -
  have "isl (cross_block (Transformer_init cfg sd) token_ids segment_ids attention_mask)"
    by (rule cross_block_width [OF assms])
  then have 1: "isl (snd (Transformer_forward g (Transformer_init cfg sd) token_ids segment_ids attention_mask))"
    by (simp add: forward_value isl_rbind)
  have 2: "shape h \<noteq> [] \<and> last (shape h) = hidden cfg"
    if "Embeddings_forward (embed (Transformer_init cfg sd)) token_ids segment_ids = Inr h" for h
    using Embeddings_forward_width [of cfg sd "''embed''" token_ids segment_ids h] that
    by (simp add: Transformer_init_def)
  show ?thesis
    using 1 2 by (simp add: Transformer_init_def QKVAttention_cross_init_def nn_Linear_def parameter_def)
qed

theorem forward_needs_hidden_eq_C_witness:
  "hidden cfg_narrow \<noteq> C cfg_narrow
   \<and> isl (snd (Transformer_forward (Some cfg_narrow) (Transformer_init cfg_narrow sd_example)
        token_ids_example (Some segment_ids_example) (Some mask_example)))"
  using forward_needs_hidden_eq_C [of cfg_narrow "Some cfg_narrow" sd_example
      token_ids_example "Some segment_ids_example" "Some mask_example"]
  by (simp add: cfg_narrow_def cfg_example_def)


end
